theory Spec2Isabelle
  imports Complex_Main
begin

section \<open>Python values and containers\<close>

text \<open>
  The exceptions the analysed code can raise: an index out of range, \<open>max()\<close> of an
  empty sequence or a numpy shape mismatch (ValueError), the explicit \<open>KeyError\<close> of
  \<open>_get_icon_team\<close>, and a float division by zero.
\<close>

datatype py_error = IndexError | ValueError | KeyError | ZeroDivisionError

text \<open>
  Python indexing \<open>xs[i]\<close>: a negative index counts from the end, anything outside
  \<open>-len .. len-1\<close> raises IndexError.
\<close>

definition py_index :: "'a list \<Rightarrow> int \<Rightarrow> py_error + 'a" where
  "py_index xs i =
     (if 0 \<le> i \<and> i < int (length xs) then Inr (xs ! nat i)
      else if - int (length xs) \<le> i \<and> i < 0 then Inr (xs ! nat (int (length xs) + i))
      else Inl IndexError)"

text \<open>
  A slice bound is clamped into \<open>0 .. len\<close>, a negative one after adding \<open>len\<close>;
  \<open>xs[a:b]\<close> never raises.
\<close>

definition slice_bound :: "nat \<Rightarrow> int \<Rightarrow> nat" where
  "slice_bound n i = (if i < 0 then nat (max (i + int n) 0) else min (nat i) n)"

definition py_slice :: "'a list \<Rightarrow> int \<Rightarrow> int \<Rightarrow> 'a list" where
  "py_slice xs a b =
     (let l = slice_bound (length xs) a; r = slice_bound (length xs) b
      in take (r - l) (drop l xs))"

text \<open>
  Assignment to a list slice, \<open>xs[a:b] = ys\<close>: the slice is replaced by \<open>ys\<close>,
  whatever the two lengths are.
\<close>

definition py_set_slice :: "'a list \<Rightarrow> int \<Rightarrow> int \<Rightarrow> 'a list \<Rightarrow> 'a list" where
  "py_set_slice xs a b ys =
     (let l = slice_bound (length xs) a; r = slice_bound (length xs) b
      in take l xs @ ys @ drop (max l r) xs)"

text \<open>\<open>max(xs)\<close> of the builtins: ValueError on an empty sequence.\<close>

definition py_max :: "real list \<Rightarrow> py_error + real" where
  "py_max xs = (case xs of [] \<Rightarrow> Inl ValueError | y # ys \<Rightarrow> Inr (foldl max y ys))"

text \<open>\<open>range(a, b)\<close>.\<close>

definition py_range :: "int \<Rightarrow> int \<Rightarrow> int list" where
  "py_range a b = [a..b - 1]"

section \<open>Data model\<close>

text \<open>
  A pixel is its list of channel values, an image a list of rows of pixels.
  Scores are the finite floats OpenCV returns, modelled by the real numbers they denote;
  comparisons of finite floats are the comparisons of those reals.
\<close>

type_synonym pixel = "nat list"
type_synonym image = "pixel list list"

text \<open>Class \<open>KillfeedIconMatch\<close>; the field \<open>x\<close> is named \<open>match_x\<close> here.\<close>

record KillfeedIconMatch =
  object_name :: string
  score :: real
  match_x :: int

definition get_score :: "KillfeedIconMatch \<Rightarrow> real" where
  "get_score m = score m"

text \<open>
  The three event kinds of module \<open>overwatch\<close> and the record \<open>overwatch.Killfeed\<close>
  as the analyser builds it: a keyword argument the call leaves out is \<open>None\<close>.
\<close>

datatype event_kind = SUICIDE | RESURRECTION | ELIMINATION

record Killfeed =
  kf_player :: string
  kf_time :: nat
  team1 :: "string option"
  team2 :: "string option"
  character1 :: "string option"
  character2 :: "string option"
  event :: event_kind

text \<open>
  The analyser instance. \<open>fstruc\<close>, \<open>icons\<close> and \<open>frame_analyzer.game\<close> are flattened
  into the fields that the code reads from them; \<open>ICONS_CHARACTER\<close> is the dictionary in
  its iteration order. \<open>killfeed\<close> is the cache attribute.
\<close>

record analyzer =
  killfeed_image :: image
  KILLFEED_MAX_WIDTH :: int
  KILLFEED_CHARACTER2_MAX_WIDTH :: int
  ICON_CHARACTER_WIDTH :: int
  ICON_CHARACTER_HEIGHT :: int
  ICONS_CHARACTER :: "(string \<times> image) list"
  time :: nat
  color_team1 :: pixel
  color_team2 :: pixel
  name_team1 :: string
  name_team2 :: string
  killfeed :: "Killfeed option"

text \<open>
  The library functions the analyser calls, whose code is outside the repository:
  \<open>cv2.Canny(img, 100, 200)\<close> (the edge map, rows of 0/255),
  \<open>cv2.matchTemplate(img, templ, TM_CCOEFF_NORMED)\<close> (the correlation surface, by rows),
  \<open>util.crop_by_limit\<close> and \<open>util.color_distance\<close>.
\<close>

record library =
  Canny :: "image \<Rightarrow> int list list"
  matchTemplate :: "image \<Rightarrow> image \<Rightarrow> real list list"
  crop_by_limit :: "image \<Rightarrow> int \<Rightarrow> int \<Rightarrow> int \<Rightarrow> int \<Rightarrow> image"
  color_distance :: "pixel \<Rightarrow> pixel \<Rightarrow> real"

definition LEFT :: int where "LEFT = 0"
definition RIGHT :: int where "RIGHT = 1"

section \<open>The selector of \<open>get_killfeed\<close>\<close>

text \<open>The placeholder \<open>KillfeedIconMatch("", -1, -1)\<close>.\<close>

definition no_match :: KillfeedIconMatch where
  "no_match = \<lparr>object_name = [], score = - 1, match_x = - 1\<rparr>"

text \<open>
  One round of the loop over \<open>icons_weights\<close> (lines 45-53): \<open>insert(0, item)\<close> or
  \<open>insert(1, item)\<close> followed by \<open>pop()\<close>, or \<open>pop()\<close> followed by \<open>append(item)\<close>.
\<close>

definition top3_step :: "KillfeedIconMatch list \<Rightarrow> KillfeedIconMatch \<Rightarrow> KillfeedIconMatch list" where
  "top3_step best item =
     (if score item > score (best ! 0) then butlast (item # best)
      else if score item > score (best ! 1) then butlast (take 1 best @ item # drop 1 best)
      else if score item > score (best ! 2) then butlast best @ [item]
      else best)"

definition best_matches :: "KillfeedIconMatch list \<Rightarrow> KillfeedIconMatch list" where
  "best_matches icons_weights = foldl top3_step (replicate 3 no_match) icons_weights"

text \<open>
  Inserting behind every element whose key is not larger: what a stable sort does with
  the element that comes last in the input.
\<close>

fun ins_last :: "('a \<Rightarrow> 'k::linorder) \<Rightarrow> 'a \<Rightarrow> 'a list \<Rightarrow> 'a list" where
  "ins_last f a [] = [a]"
| "ins_last f a (y # ys) = (if f a < f y then a # y # ys else y # ins_last f a ys)"

text \<open>
  The float literal \<open>0.6\<close> of line 56 is the double \<open>0x3FE3333333333333\<close>, which is
  \<open>5404319552844595 / 2^53\<close>, slightly below the rational 6/10.
\<close>

definition score_threshold :: real where
  "score_threshold = 5404319552844595 / 9007199254740992"

text \<open>
  The loop over \<open>best_matches\<close> (lines 54-64). \<open>edge_validation[item.x]\<close> is read only
  for an item that passed the threshold.
\<close>

fun matched_icons :: "bool list \<Rightarrow> KillfeedIconMatch list \<Rightarrow> py_error + KillfeedIconMatch list" where
  "matched_icons edge_validation [] = Inr []"
| "matched_icons edge_validation (item # rest) =
     (if score item < score_threshold then matched_icons edge_validation rest
      else case py_index edge_validation (match_x item) of
             Inl e \<Rightarrow> Inl e
           | Inr valid \<Rightarrow>
               (case matched_icons edge_validation rest of
                  Inl e \<Rightarrow> Inl e
                | Inr acc \<Rightarrow> Inr (if valid then item # acc else acc)))"

section \<open>Team and event\<close>

text \<open>
  \<open>_get_icon_team\<close>: the pixel \<open>killfeed_image[0][x]\<close> and the nearer of the two team
  colours, the first on equal distances.
\<close>

definition sample_column :: "analyzer \<Rightarrow> KillfeedIconMatch \<Rightarrow> int \<Rightarrow> py_error + int" where
  "sample_column a icon position =
     (if position = LEFT then Inr (match_x icon - 5)
      else if position = RIGHT then Inr (match_x icon + ICON_CHARACTER_WIDTH a + 5)
      else Inl KeyError)"

definition get_icon_team :: "library \<Rightarrow> analyzer \<Rightarrow> KillfeedIconMatch \<Rightarrow> int \<Rightarrow> py_error + string" where
  "get_icon_team lib a icon position =
     (case sample_column a icon position of
        Inl e \<Rightarrow> Inl e
      | Inr c \<Rightarrow>
          (case py_index (killfeed_image a) 0 of
             Inl e \<Rightarrow> Inl e
           | Inr row \<Rightarrow>
               (case py_index row c of
                  Inl e \<Rightarrow> Inl e
                | Inr color \<Rightarrow>
                    (let team1_distance = color_distance lib color (color_team1 a);
                         team2_distance = color_distance lib color (color_team2 a)
                     in if team1_distance \<le> team2_distance then Inr (name_team1 a)
                        else Inr (name_team2 a)))))"

text \<open>The two calls of \<open>overwatch.Killfeed\<close> in \<open>_generate_killfeed\<close>.\<close>

definition suicide_event :: "analyzer \<Rightarrow> KillfeedIconMatch \<Rightarrow> string \<Rightarrow> Killfeed" where
  "suicide_event a icon team =
     \<lparr>kf_player = ''test'', kf_time = time a, team1 = None, team2 = Some team,
      character1 = None, character2 = Some (object_name icon), event = SUICIDE\<rparr>"

definition pair_event :: "analyzer \<Rightarrow> KillfeedIconMatch \<Rightarrow> KillfeedIconMatch \<Rightarrow> string \<Rightarrow> string \<Rightarrow> Killfeed" where
  "pair_event a icon1 icon2 t1 t2 =
     \<lparr>kf_player = ''test'', kf_time = time a, team1 = Some t1, team2 = Some t2,
      character1 = Some (object_name icon1), character2 = Some (object_name icon2),
      event = (if t1 = t2 then RESURRECTION else ELIMINATION)\<rparr>"

text \<open>
  \<open>_generate_killfeed\<close>. On an empty list \<open>matched_icons[0]\<close> raises; a list of two or
  more is read at its first two places.
\<close>

fun generate_killfeed :: "library \<Rightarrow> analyzer \<Rightarrow> KillfeedIconMatch list \<Rightarrow> py_error + Killfeed" where
  "generate_killfeed lib a [] = Inl IndexError"
| "generate_killfeed lib a [m] =
     (case get_icon_team lib a m RIGHT of
        Inl e \<Rightarrow> Inl e
      | Inr team \<Rightarrow> Inr (suicide_event a m team))"
| "generate_killfeed lib a (m0 # m1 # rest) =
     (let (icon1, icon2) = (if match_x m0 > match_x m1 then (m1, m0) else (m0, m1))
      in case get_icon_team lib a icon1 LEFT of
           Inl e \<Rightarrow> Inl e
         | Inr t1 \<Rightarrow>
             (case get_icon_team lib a icon2 RIGHT of
                Inl e \<Rightarrow> Inl e
              | Inr t2 \<Rightarrow> Inr (pair_event a icon1 icon2 t1 t2)))"

text \<open>The nearest-colour rule in the words of the specification.\<close>

definition nearest_team :: "library \<Rightarrow> analyzer \<Rightarrow> pixel \<Rightarrow> string" where
  "nearest_team lib a color =
     (if color_distance lib color (color_team2 a) < color_distance lib color (color_team1 a)
      then name_team2 a else name_team1 a)"

text \<open>The analyser with its two team reference colours exchanged.\<close>

definition swap_colors :: "analyzer \<Rightarrow> analyzer" where
  "swap_colors a = a\<lparr>color_team1 := color_team2 a, color_team2 := color_team1 a\<rparr>"

definition swap_label :: "analyzer \<Rightarrow> string \<Rightarrow> string" where
  "swap_label a t =
     (if t = name_team1 a then name_team2 a else if t = name_team2 a then name_team1 a else t)"

section \<open>The edge validator\<close>

text \<open>
  \<open>edge_image.shape[1]\<close>, and the spanned edge image of lines 196-199: column 0 stays 0,
  column \<open>j\<close> is \<open>sum(edge_image[i, j-1: j+1])\<close>. The builtin \<open>sum\<close> starts from the
  Python integer 0, so two bytes of 255 add up to 510.
\<close>

definition shape1 :: "'a list list \<Rightarrow> nat" where
  "shape1 m = (case m of [] \<Rightarrow> 0 | row # _ \<Rightarrow> length row)"

definition edge_span :: "int list list \<Rightarrow> int list list" where
  "edge_span edge_image =
     map (\<lambda>row. map (\<lambda>j. if j = 0 then 0
                           else sum_list (py_slice row (int j - 1) (int j + 1)))
                    [0..<shape1 edge_image])
         edge_image"

text \<open>
  \<open>edge_span.sum(0)\<close> divided by \<open>255 * ICON_CHARACTER_HEIGHT\<close> (lines 200-201). The
  quotients and the two thresholds are compared as exact numbers.
\<close>

definition edge_sum :: "analyzer \<Rightarrow> int list list \<Rightarrow> real list" where
  "edge_sum a edge_image =
     map (\<lambda>j. real_of_int (sum_list (map (\<lambda>row. row ! j) (edge_span edge_image)))
                 / real_of_int (255 * ICON_CHARACTER_HEIGHT a))
         [0..<shape1 edge_image]"

definition threshold_left :: "analyzer \<Rightarrow> real" where
  "threshold_left a = (real_of_int (ICON_CHARACTER_HEIGHT a) - 2) / real_of_int (ICON_CHARACTER_HEIGHT a)"

definition threshold_right :: "analyzer \<Rightarrow> real" where
  "threshold_right a = (real_of_int (ICON_CHARACTER_HEIGHT a) - 5) / real_of_int (ICON_CHARACTER_HEIGHT a)"

text \<open>
  The test of one column (lines 207-211). \<open>and\<close> evaluates the right window only when the
  left one passed.
\<close>

definition edge_test :: "analyzer \<Rightarrow> real list \<Rightarrow> int \<Rightarrow> py_error + bool" where
  "edge_test a es i =
     (case py_max (py_slice es (i - 2) (i + 2)) of
        Inl e \<Rightarrow> Inl e
      | Inr l \<Rightarrow>
          if l \<ge> threshold_left a
          then (case py_max (py_slice es (i + 33) (i + 37)) of
                  Inl e \<Rightarrow> Inl e
                | Inr r \<Rightarrow> Inr (r \<ge> threshold_right a))
          else Inr False)"

fun edge_loop :: "analyzer \<Rightarrow> real list \<Rightarrow> bool list \<Rightarrow> int list \<Rightarrow> py_error + bool list" where
  "edge_loop a es edge_validation [] = Inr edge_validation"
| "edge_loop a es edge_validation (i # rest) =
     (case edge_test a es i of
        Inl e \<Rightarrow> Inl e
      | Inr b \<Rightarrow> edge_loop a es (edge_validation @ [b]) rest)"

text \<open>
  \<open>_validate_edge\<close>. With a template height of 0 the numpy division of line 201 only
  warns, and line 203 raises.
\<close>

definition validate_edge :: "library \<Rightarrow> analyzer \<Rightarrow> image \<Rightarrow> py_error + bool list" where
  "validate_edge lib a img =
     (let edge_image = Canny lib img
      in if ICON_CHARACTER_HEIGHT a = 0 then Inl ZeroDivisionError
         else case edge_loop a (edge_sum a edge_image) [False, False]
                     (py_range 2 (KILLFEED_MAX_WIDTH a - 38)) of
                Inl e \<Rightarrow> Inl e
              | Inr edge_validation \<Rightarrow> Inr (edge_validation @ replicate 6 False))"

section \<open>The icon scorers\<close>

text \<open>\<open>_match_template_score\<close>: the entry \<open>[0][0]\<close> of the correlation surface.\<close>

definition match_template_score :: "library \<Rightarrow> image \<Rightarrow> image \<Rightarrow> py_error + real" where
  "match_template_score lib image1 image2 =
     (case py_index (matchTemplate lib image1 image2) 0 of
        Inl e \<Rightarrow> Inl e
      | Inr row \<Rightarrow> py_index row 0)"

text \<open>The loop over the templates for one column (lines 139-146).\<close>

fun best_icon :: "library \<Rightarrow> image \<Rightarrow> (string \<times> image) list \<Rightarrow> string \<times> real \<Rightarrow> py_error + string \<times> real" where
  "best_icon lib to_compare [] best = Inr best"
| "best_icon lib to_compare ((name, object_icon) # rest) (best_name, best_score) =
     (case match_template_score lib to_compare object_icon of
        Inl e \<Rightarrow> Inl e
      | Inr s \<Rightarrow>
          best_icon lib to_compare rest
            (if s > best_score then (name, s) else (best_name, best_score)))"

text \<open>The loop over the columns (lines 135-147).\<close>

fun result_raw :: "library \<Rightarrow> analyzer \<Rightarrow> image \<Rightarrow> bool list \<Rightarrow> int list \<Rightarrow> py_error + KillfeedIconMatch list" where
  "result_raw lib a img edge_validation [] = Inr []"
| "result_raw lib a img edge_validation (c # cs) =
     (case py_index edge_validation c of
        Inl e \<Rightarrow> Inl e
      | Inr valid \<Rightarrow>
          if \<not> valid then result_raw lib a img edge_validation cs
          else
            (case best_icon lib
                    (crop_by_limit lib img 0 (ICON_CHARACTER_HEIGHT a) c (ICON_CHARACTER_WIDTH a))
                    (ICONS_CHARACTER a) ([], - 1) of
               Inl e \<Rightarrow> Inl e
             | Inr (best_name, best_score) \<Rightarrow>
                 (case result_raw lib a img edge_validation cs of
                    Inl e \<Rightarrow> Inl e
                  | Inr ms \<Rightarrow>
                      Inr (\<lparr>object_name = best_name, score = best_score, match_x = c\<rparr> # ms))))"

text \<open>
  The suppression loop (lines 152-158), the list \<open>mask\<close> being \<open>cover\<close> here: a
  match on a covered column is skipped, an accepted one covers
  \<open>mask[max(0, x-5) : min(len(mask), x+5)]\<close>.
\<close>

fun suppress :: "bool list \<Rightarrow> KillfeedIconMatch list \<Rightarrow> py_error + KillfeedIconMatch list" where
  "suppress cover [] = Inr []"
| "suppress cover (m # ms) =
     (case py_index cover (match_x m) of
        Inl e \<Rightarrow> Inl e
      | Inr covered \<Rightarrow>
          if covered then suppress cover ms
          else
            (let mask_left_index = max 0 (match_x m - 5);
                 mask_right_index = min (int (length cover)) (match_x m + 5);
                 cover' = py_set_slice cover mask_left_index mask_right_index
                            (replicate (nat (mask_right_index - mask_left_index)) True)
             in case suppress cover' ms of
                  Inl e \<Rightarrow> Inl e
                | Inr result \<Rightarrow> Inr (m # result)))"

text \<open>
  \<open>_get_icons_weights_discrete\<close>. \<open>sort(key=get_score, reverse=True)\<close> is stable:
  matches of equal score keep their order.
\<close>

definition get_icons_weights_discrete :: "library \<Rightarrow> analyzer \<Rightarrow> image \<Rightarrow> bool list \<Rightarrow> py_error + KillfeedIconMatch list" where
  "get_icons_weights_discrete lib a img edge_validation =
     (case result_raw lib a img edge_validation (py_range 0 (int (length edge_validation))) of
        Inl e \<Rightarrow> Inl e
      | Inr raw \<Rightarrow>
          suppress (replicate (length edge_validation) False)
            (sort_key (\<lambda>m. - get_score m) raw))"

text \<open>
  \<open>cv2.minMaxLoc\<close>, of which the code uses the maximum and the column of its location:
  the first maximum met row by row. On an empty array it answers with the value 0 at
  the location (-1, -1), and the caller goes on.
\<close>

definition cells :: "real list list \<Rightarrow> (real \<times> int) list" where
  "cells m = concat (map (\<lambda>row. zip row (map int [0..<length row])) m)"

definition minMaxLoc :: "real list list \<Rightarrow> py_error + real \<times> int" where
  "minMaxLoc m =
     (case cells m of
        [] \<Rightarrow> Inr (0, - 1)
      | c # cs \<Rightarrow> Inr (foldl (\<lambda>best c'. if fst c' > fst best then c' else best) c cs))"

text \<open>
  The numpy assignment \<open>row[a:b] = vs\<close>: the values must have the length of the slice
  or length 1, otherwise the shapes do not broadcast.
\<close>

definition np_set_slice :: "real list \<Rightarrow> int \<Rightarrow> int \<Rightarrow> real list \<Rightarrow> py_error + real list" where
  "np_set_slice row a b vs =
     (let l = slice_bound (length row) a; r = slice_bound (length row) b; k = r - l
      in if length vs = k then Inr (take l row @ vs @ drop (l + k) row)
         else if length vs = 1 then Inr (take l row @ replicate k (hd vs) @ drop (l + k) row)
         else Inl ValueError)"

text \<open>\<open>match_result[0, l:r] = [-1] * (r - l)\<close> (line 117).\<close>

definition mask_peak :: "analyzer \<Rightarrow> real list list \<Rightarrow> int \<Rightarrow> py_error + real list list" where
  "mask_peak a match_result peak =
     (let half_mask_width = 5;
          mask_index_left = max (peak - half_mask_width) 0;
          mask_index_right = min (peak + half_mask_width + 1)
                                 (KILLFEED_MAX_WIDTH a - ICON_CHARACTER_WIDTH a)
      in case py_index match_result 0 of
           Inl e \<Rightarrow> Inl e
         | Inr row \<Rightarrow>
             (case np_set_slice row mask_index_left mask_index_right
                     (replicate (nat (mask_index_right - mask_index_left)) (- 1)) of
                Inl e \<Rightarrow> Inl e
              | Inr row' \<Rightarrow> Inr (match_result[0 := row'])))"

text \<open>
  One round of the loop of \<open>_get_icons_weights_full\<close> (lines 106-121): the matches that
  one template adds to \<open>result\<close>.
\<close>

definition template_peaks :: "analyzer \<Rightarrow> bool list \<Rightarrow> string \<Rightarrow> real list list \<Rightarrow> py_error + KillfeedIconMatch list" where
  "template_peaks a edge_validation name match_result =
     (case minMaxLoc match_result of
        Inl e \<Rightarrow> Inl e
      | Inr (max_val, max_loc) \<Rightarrow>
          (case py_index edge_validation max_loc of
             Inl e \<Rightarrow> Inl e
           | Inr valid \<Rightarrow>
               (let first = (if valid
                             then [\<lparr>object_name = name, score = max_val, match_x = max_loc\<rparr>]
                             else [])
                in case mask_peak a match_result max_loc of
                     Inl e \<Rightarrow> Inl e
                   | Inr masked \<Rightarrow>
                       (case minMaxLoc masked of
                          Inl e \<Rightarrow> Inl e
                        | Inr (max_val2, max_loc2) \<Rightarrow>
                            (case py_index edge_validation max_loc2 of
                               Inl e \<Rightarrow> Inl e
                             | Inr valid2 \<Rightarrow>
                                 Inr (first @
                                      (if valid2
                                       then [\<lparr>object_name = name, score = max_val2,
                                               match_x = max_loc2\<rparr>]
                                       else [])))))))"

fun full_loop :: "library \<Rightarrow> analyzer \<Rightarrow> image \<Rightarrow> bool list \<Rightarrow> (string \<times> image) list \<Rightarrow> py_error + KillfeedIconMatch list" where
  "full_loop lib a img edge_validation [] = Inr []"
| "full_loop lib a img edge_validation ((name, object_icon) # rest) =
     (case template_peaks a edge_validation name (matchTemplate lib img object_icon) of
        Inl e \<Rightarrow> Inl e
      | Inr ms \<Rightarrow>
          (case full_loop lib a img edge_validation rest of
             Inl e \<Rightarrow> Inl e
           | Inr result \<Rightarrow> Inr (ms @ result)))"

definition get_icons_weights_full :: "library \<Rightarrow> analyzer \<Rightarrow> image \<Rightarrow> bool list \<Rightarrow> py_error + KillfeedIconMatch list" where
  "get_icons_weights_full lib a img edge_validation =
     full_loop lib a img edge_validation (ICONS_CHARACTER a)"

text \<open>\<open>_get_icons_weights\<close>: the sparse scorer up to seven valid columns.\<close>

definition get_icons_weights :: "library \<Rightarrow> analyzer \<Rightarrow> image \<Rightarrow> bool list \<Rightarrow> py_error + KillfeedIconMatch list" where
  "get_icons_weights lib a img edge_validation =
     (let valid_pixel_count = count_list edge_validation True
      in if valid_pixel_count \<le> 7 then get_icons_weights_discrete lib a img edge_validation
         else get_icons_weights_full lib a img edge_validation)"

section \<open>The analysis of a row\<close>

text \<open>\<open>__init__\<close>: the fields of the frame analyser are copied, the cache is empty.\<close>

definition init_analyzer :: "image \<Rightarrow> analyzer \<Rightarrow> analyzer" where
  "init_analyzer img frame_analyzer = frame_analyzer\<lparr>killfeed_image := img, killfeed := None\<rparr>"

text \<open>The decision of lines 65-74 on the accepted matches.\<close>

definition decide :: "library \<Rightarrow> analyzer \<Rightarrow> KillfeedIconMatch list \<Rightarrow> py_error + Killfeed option" where
  "decide lib a ms =
     (if length ms = 0 then Inr None
      else if length ms = 1 then
        (if match_x (ms ! 0) < KILLFEED_MAX_WIDTH a - KILLFEED_CHARACTER2_MAX_WIDTH a
         then Inr None
         else map_sum id Some (generate_killfeed lib a ms))
      else map_sum id Some (generate_killfeed lib a (py_slice ms 0 2)))"

text \<open>Lines 40-74, what a call computes when it does not return the cache.\<close>

definition analyse :: "library \<Rightarrow> analyzer \<Rightarrow> py_error + Killfeed option" where
  "analyse lib a =
     (case validate_edge lib a (killfeed_image a) of
        Inl e \<Rightarrow> Inl e
      | Inr edge_validation \<Rightarrow>
          (case get_icons_weights lib a (killfeed_image a) edge_validation of
             Inl e \<Rightarrow> Inl e
           | Inr icons_weights \<Rightarrow>
               (case matched_icons edge_validation (best_matches icons_weights) of
                  Inl e \<Rightarrow> Inl e
                | Inr ms \<Rightarrow> decide lib a ms)))"

text \<open>
  \<open>get_killfeed\<close>: the value returned and the instance after the call. No statement
  of the method assigns an attribute of \<open>self\<close>.
\<close>

definition get_killfeed :: "library \<Rightarrow> analyzer \<Rightarrow> (py_error + Killfeed option) \<times> analyzer" where
  "get_killfeed lib a =
     (case killfeed a of
        Some k \<Rightarrow> (Inr (Some k), a)
      | None \<Rightarrow> (analyse lib a, a))"

section \<open>Notions used in the statements\<close>

text \<open>The team labels of an event exchanged.\<close>

definition swap_event :: "analyzer \<Rightarrow> Killfeed \<Rightarrow> Killfeed" where
  "swap_event a k = k\<lparr>team1 := map_option (swap_label a) (team1 k),
                      team2 := map_option (swap_label a) (team2 k)\<rparr>"

text \<open>
  The pixel that \<open>_get_icon_team\<close> reads for an icon and a position (lines 252-258),
  and whether a pixel is equally far from the two team colours.
\<close>

definition team_pixel :: "analyzer \<Rightarrow> KillfeedIconMatch \<Rightarrow> int \<Rightarrow> py_error + pixel" where
  "team_pixel a icon position =
     (case sample_column a icon position of
        Inl e \<Rightarrow> Inl e
      | Inr c \<Rightarrow>
          (case py_index (killfeed_image a) 0 of
             Inl e \<Rightarrow> Inl e
           | Inr row \<Rightarrow> py_index row c))"

definition tie :: "library \<Rightarrow> analyzer \<Rightarrow> pixel \<Rightarrow> bool" where
  "tie lib a color =
     (color_distance lib color (color_team1 a) = color_distance lib color (color_team2 a))"

text \<open>
  The pixels from which the team labels of an event are classified: those that
  \<open>_generate_killfeed\<close> reads when it returns an event, none when it raises; those
  of the event that the decision of lines 65-74 returns; and those of the event that the
  whole analysis returns.
\<close>

fun event_pixels :: "analyzer \<Rightarrow> KillfeedIconMatch list \<Rightarrow> pixel list" where
  "event_pixels a [] = []"
| "event_pixels a [m] =
     (case team_pixel a m RIGHT of Inl e \<Rightarrow> [] | Inr c \<Rightarrow> [c])"
| "event_pixels a (m0 # m1 # rest) =
     (let (icon1, icon2) = (if match_x m0 > match_x m1 then (m1, m0) else (m0, m1))
      in case team_pixel a icon1 LEFT of
           Inl e \<Rightarrow> []
         | Inr c1 \<Rightarrow>
             (case team_pixel a icon2 RIGHT of
                Inl e \<Rightarrow> []
              | Inr c2 \<Rightarrow> [c1, c2]))"

definition decide_pixels :: "analyzer \<Rightarrow> KillfeedIconMatch list \<Rightarrow> pixel list" where
  "decide_pixels a ms =
     (if length ms = 0 then []
      else if length ms = 1 then
        (if match_x (ms ! 0) < KILLFEED_MAX_WIDTH a - KILLFEED_CHARACTER2_MAX_WIDTH a
         then []
         else event_pixels a ms)
      else event_pixels a (py_slice ms 0 2))"

definition analysis_pixels :: "library \<Rightarrow> analyzer \<Rightarrow> pixel list" where
  "analysis_pixels lib a =
     (case validate_edge lib a (killfeed_image a) of
        Inl e \<Rightarrow> []
      | Inr edge_validation \<Rightarrow>
          (case get_icons_weights lib a (killfeed_image a) edge_validation of
             Inl e \<Rightarrow> []
           | Inr icons_weights \<Rightarrow>
               (case matched_icons edge_validation (best_matches icons_weights) of
                  Inl e \<Rightarrow> []
                | Inr ms \<Rightarrow> decide_pixels a ms)))"

section \<open>A small configuration\<close>

text \<open>
  Concrete inputs for the statements below: a colour distance (the squared Euclidean
  one), an edge detector that finds no edge, a matcher that answers with a given
  correlation surface, and a one-pixel-high row of 41 black pixels with a template height
  of 1, for which the two thresholds of the edge validator are negative.
\<close>

definition squared_distance :: "pixel \<Rightarrow> pixel \<Rightarrow> real" where
  "squared_distance p q = real_of_int (sum_list (map (\<lambda>(u, v). (int u - int v)\<^sup>2) (zip p q)))"

definition demo_library :: "real list list \<Rightarrow> library" where
  "demo_library surface =
     \<lparr>Canny = map (map (\<lambda>p. 0)), matchTemplate = (\<lambda>img templ. surface),
      crop_by_limit = (\<lambda>img top height left width. img), color_distance = squared_distance\<rparr>"

definition demo_row :: "nat \<Rightarrow> image" where
  "demo_row n = [replicate n [0, 0, 0]]"

definition demo_analyzer :: analyzer where
  "demo_analyzer =
     \<lparr>killfeed_image = demo_row 41, KILLFEED_MAX_WIDTH = 41, KILLFEED_CHARACTER2_MAX_WIDTH = 40,
      ICON_CHARACTER_WIDTH = 3, ICON_CHARACTER_HEIGHT = 1,
      ICONS_CHARACTER = [(''ana'', [[[9, 9, 9], [9, 9, 9], [9, 9, 9]]])], time = 7,
      color_team1 = [10, 0, 0], color_team2 = [0, 20, 0],
      name_team1 = ''A'', name_team2 = ''B'', killfeed = None\<rparr>"

text \<open>The same row 48 pixels wide, with a second template.\<close>

definition demo_analyzer_wide :: analyzer where
  "demo_analyzer_wide =
     demo_analyzer\<lparr>killfeed_image := demo_row 48, KILLFEED_MAX_WIDTH := 48,
       ICONS_CHARACTER := [(''ana'', [[[9, 9, 9], [9, 9, 9], [9, 9, 9]]]),
                           (''bob'', [[[8, 8, 8], [8, 8, 8], [8, 8, 8]]])]\<rparr>"

section \<open>Properties of the selector\<close>

lemma insort_ins_last_commute:
  "insort_key f b (ins_last f a ys) = ins_last f a (insort_key f b ys)"
  by (induction ys) auto

lemma foldr_insort_ins_last:
  "foldr (insort_key f) xs (ins_last f a ys) = ins_last f a (foldr (insort_key f) xs ys)"
  by (induction xs) (simp_all add: insort_ins_last_commute)

lemma sort_key_snoc: "sort_key f (xs @ [a]) = ins_last f a (sort_key f xs)"
  using foldr_insort_ins_last [of f xs a "[]"] by (simp add: sort_key_def)

lemma take_ins_last:
  "n \<le> length ys \<Longrightarrow> take n (ins_last f a ys) = take n (ins_last f a (take n ys))"
proof (induction ys arbitrary: n)
  case Nil
  then show ?case by simp
next
  case (Cons y ys)
  show ?case
  proof (cases n)
    case 0
    then show ?thesis by simp
  next
    case (Suc k)
    with Cons.prems have "k \<le> length ys" by simp
    from Cons.IH [OF this] Suc show ?thesis by (cases k) auto
  qed
qed

lemma top3_step_ins_last:
  assumes "length best = 3" and "sorted (map (\<lambda>m. - score m) best)"
  shows "top3_step best item = take 3 (ins_last (\<lambda>m. - score m) item best)"
proof -
  from assms(1) obtain a b c where best: "best = [a, b, c]"
    by (cases best; cases "tl best"; cases "tl (tl best)"; cases "tl (tl (tl best))") auto
  with assms(2) show ?thesis
    by (auto simp: top3_step_def)
qed

lemma best_matches_sorted_prefix:
  "best_matches cands = take 3 (sort_key (\<lambda>m. - score m) (replicate 3 no_match @ cands))"
proof (induction cands rule: rev_induct)
  case Nil
  show ?case by (simp add: best_matches_def numeral_3_eq_3)
next
  case (snoc c cs)
  let ?f = "\<lambda>m. - score m"
  let ?s = "sort_key ?f (replicate 3 no_match @ cs)"
  have len: "length (take 3 ?s) = 3" by simp
  have srt: "sorted (map ?f (take 3 ?s))"
    by (simp add: take_map [symmetric])
  have "best_matches (cs @ [c]) = top3_step (best_matches cs) c"
    by (simp add: best_matches_def)
  also have "\<dots> = top3_step (take 3 ?s) c" by (simp add: snoc.IH)
  also have "\<dots> = take 3 (ins_last ?f c (take 3 ?s))"
    by (rule top3_step_ins_last [OF len srt])
  also have "\<dots> = take 3 (ins_last ?f c ?s)"
    by (rule take_ins_last [symmetric]) simp
  also have "\<dots> = take 3 (sort_key ?f ((replicate 3 no_match @ cs) @ [c]))"
    by (simp only: sort_key_snoc)
  finally show ?case by simp
qed

section \<open>Properties of the acceptance loop and of the team rule\<close>

lemma matched_icons_mem:
  "matched_icons ev best = Inr acc \<Longrightarrow>
   item \<in> set acc \<longleftrightarrow>
     item \<in> set best \<and> score_threshold \<le> score item \<and> py_index ev (match_x item) = Inr True"
proof (induction best arbitrary: acc)
  case Nil
  then show ?case by auto
next
  case (Cons b bs)
  show ?case
  proof (cases "score b < score_threshold")
    case True
    with Cons.prems have "matched_icons ev bs = Inr acc" by simp
    from Cons.IH [OF this] True show ?thesis by auto
  next
    case False
    with Cons.prems obtain valid acc' where
      v: "py_index ev (match_x b) = Inr valid" and
      r: "matched_icons ev bs = Inr acc'" and
      a: "acc = (if valid then b # acc' else acc')"
      by (auto split: sum.splits)
    from Cons.IH [OF r] False v a show ?thesis by auto
  qed
qed

lemma py_index_in_range:
  "- int (length xs) \<le> i \<Longrightarrow> i < int (length xs) \<Longrightarrow> \<exists>v. py_index xs i = Inr v"
  by (simp add: py_index_def)

lemma matched_icons_total:
  "(\<forall>item \<in> set best. score_threshold \<le> score item \<longrightarrow>
       - int (length ev) \<le> match_x item \<and> match_x item < int (length ev)) \<Longrightarrow>
   \<exists>acc. matched_icons ev best = Inr acc"
proof (induction best)
  case Nil
  then show ?case by simp
next
  case (Cons b bs)
  then obtain acc where r: "matched_icons ev bs = Inr acc" by auto
  show ?case
  proof (cases "score b < score_threshold")
    case True
    with r show ?thesis by simp
  next
    case False
    with Cons.prems have "- int (length ev) \<le> match_x b \<and> match_x b < int (length ev)" by simp
    then obtain v where "py_index ev (match_x b) = Inr v"
      using py_index_in_range [of ev "match_x b"] by blast
    with r False show ?thesis by simp
  qed
qed

lemma get_icon_team_nearest:
  "py_index (killfeed_image a) 0 = Inr row \<Longrightarrow> sample_column a icon position = Inr c \<Longrightarrow>
   py_index row c = Inr color \<Longrightarrow>
   get_icon_team lib a icon position = Inr (nearest_team lib a color)"
  by (simp add: get_icon_team_def nearest_team_def Let_def not_less)

lemma swap_fields [simp]:
  "killfeed_image (swap_colors a) = killfeed_image a"
  "KILLFEED_MAX_WIDTH (swap_colors a) = KILLFEED_MAX_WIDTH a"
  "KILLFEED_CHARACTER2_MAX_WIDTH (swap_colors a) = KILLFEED_CHARACTER2_MAX_WIDTH a"
  "ICON_CHARACTER_WIDTH (swap_colors a) = ICON_CHARACTER_WIDTH a"
  "ICON_CHARACTER_HEIGHT (swap_colors a) = ICON_CHARACTER_HEIGHT a"
  "ICONS_CHARACTER (swap_colors a) = ICONS_CHARACTER a"
  "time (swap_colors a) = time a"
  "color_team1 (swap_colors a) = color_team2 a"
  "color_team2 (swap_colors a) = color_team1 a"
  "name_team1 (swap_colors a) = name_team1 a"
  "name_team2 (swap_colors a) = name_team2 a"
  "killfeed (swap_colors a) = killfeed a"
  by (simp_all add: swap_colors_def)

lemma sample_column_swap [simp]: "sample_column (swap_colors a) icon p = sample_column a icon p"
  by (simp add: sample_column_def)

lemma py_index_mem: "py_index xs i = Inr v \<Longrightarrow> v \<in> set xs"
  by (auto simp: py_index_def split: if_splits)

section \<open>Exchanging the team colours\<close>

lemma edge_sum_swap [simp]: "edge_sum (swap_colors a) e = edge_sum a e"
  by (simp add: edge_sum_def)

lemma thresholds_swap [simp]:
  "threshold_left (swap_colors a) = threshold_left a"
  "threshold_right (swap_colors a) = threshold_right a"
  by (simp_all add: threshold_left_def threshold_right_def)

lemma edge_test_swap [simp]: "edge_test (swap_colors a) es i = edge_test a es i"
  by (simp add: edge_test_def cong: sum.case_cong if_cong)

lemma edge_loop_swap [simp]: "edge_loop (swap_colors a) es acc is = edge_loop a es acc is"
  by (induction "is" arbitrary: acc) (simp_all cong: sum.case_cong)

lemma validate_edge_swap [simp]: "validate_edge lib (swap_colors a) img = validate_edge lib a img"
  by (simp add: validate_edge_def)

lemma result_raw_swap [simp]:
  "result_raw lib (swap_colors a) img ev cs = result_raw lib a img ev cs"
  by (induction cs) (simp_all cong: sum.case_cong if_cong prod.case_cong)

lemma mask_peak_swap [simp]: "mask_peak (swap_colors a) m p = mask_peak a m p"
  by (simp add: mask_peak_def)

lemma template_peaks_swap [simp]: "template_peaks (swap_colors a) ev n m = template_peaks a ev n m"
  by (simp add: template_peaks_def cong: sum.case_cong prod.case_cong)

lemma full_loop_swap [simp]:
  "full_loop lib (swap_colors a) img ev ts = full_loop lib a img ev ts"
proof (induction ts)
  case Nil
  show ?case by simp
next
  case (Cons t ts)
  then show ?case by (cases t) (simp cong: sum.case_cong)
qed

lemma get_icons_weights_swap [simp]:
  "get_icons_weights lib (swap_colors a) img ev = get_icons_weights lib a img ev"
  by (simp add: get_icons_weights_def get_icons_weights_discrete_def get_icons_weights_full_def)

lemma get_icon_team_pixel:
  "get_icon_team lib a icon p = map_sum id (nearest_team lib a) (team_pixel a icon p)"
  by (simp add: get_icon_team_def team_pixel_def nearest_team_def Let_def not_less
           split: sum.splits)

lemma team_pixel_swap [simp]: "team_pixel (swap_colors a) icon p = team_pixel a icon p"
  by (simp add: team_pixel_def cong: sum.case_cong)

lemma nearest_team_names: "nearest_team lib a c = name_team1 a \<or> nearest_team lib a c = name_team2 a"
  by (simp add: nearest_team_def)

lemma nearest_team_swap_iff:
  "nearest_team lib (swap_colors a) color = swap_label a (nearest_team lib a color)
     \<longleftrightarrow> (tie lib a color \<longrightarrow> name_team1 a = name_team2 a)"
  by (auto simp: nearest_team_def swap_label_def tie_def)

lemma swap_label_eq_iff:
  "t1 = name_team1 a \<or> t1 = name_team2 a \<Longrightarrow> t2 = name_team1 a \<or> t2 = name_team2 a \<Longrightarrow>
   swap_label a t1 = swap_label a t2 \<longleftrightarrow> t1 = t2"
  by (auto simp: swap_label_def)

lemma suicide_event_swap_iff:
  "suicide_event (swap_colors a) m t' = swap_event a (suicide_event a m t)
     \<longleftrightarrow> t' = swap_label a t"
  by (simp add: suicide_event_def swap_event_def)

lemma pair_event_swap_iff:
  assumes "t1 = name_team1 a \<or> t1 = name_team2 a" and "t2 = name_team1 a \<or> t2 = name_team2 a"
  shows "pair_event (swap_colors a) i1 i2 t1' t2' = swap_event a (pair_event a i1 i2 t1 t2)
     \<longleftrightarrow> t1' = swap_label a t1 \<and> t2' = swap_label a t2"
proof
  assume "pair_event (swap_colors a) i1 i2 t1' t2' = swap_event a (pair_event a i1 i2 t1 t2)"
  then show "t1' = swap_label a t1 \<and> t2' = swap_label a t2"
    by (simp add: pair_event_def swap_event_def)
next
  assume h: "t1' = swap_label a t1 \<and> t2' = swap_label a t2"
  with swap_label_eq_iff [OF assms]
  show "pair_event (swap_colors a) i1 i2 t1' t2' = swap_event a (pair_event a i1 i2 t1 t2)"
    by (simp add: pair_event_def swap_event_def)
qed

lemma single_swap_iff:
  "generate_killfeed lib (swap_colors a) [m] = map_sum id (swap_event a) (generate_killfeed lib a [m])
     \<longleftrightarrow> (\<forall>color \<in> set (event_pixels a [m]). tie lib a color \<longrightarrow> name_team1 a = name_team2 a)"
proof (cases "team_pixel a m RIGHT")
  case (Inl e)
  then show ?thesis by (simp add: get_icon_team_pixel)
next
  case (Inr c)
  then show ?thesis
    by (simp add: get_icon_team_pixel suicide_event_swap_iff nearest_team_swap_iff)
qed

lemma ordered_swap_iff:
  "(case get_icon_team lib (swap_colors a) ia LEFT of
      Inl e \<Rightarrow> Inl e
    | Inr t1 \<Rightarrow>
        (case get_icon_team lib (swap_colors a) ib RIGHT of
           Inl e \<Rightarrow> Inl e
         | Inr t2 \<Rightarrow> Inr (pair_event (swap_colors a) ia ib t1 t2)))
   = map_sum id (swap_event a)
      (case get_icon_team lib a ia LEFT of
         Inl e \<Rightarrow> Inl e
       | Inr t1 \<Rightarrow>
           (case get_icon_team lib a ib RIGHT of
              Inl e \<Rightarrow> Inl e
            | Inr t2 \<Rightarrow> Inr (pair_event a ia ib t1 t2)))
   \<longleftrightarrow> (\<forall>color \<in> set (case team_pixel a ia LEFT of
                            Inl e \<Rightarrow> []
                          | Inr c1 \<Rightarrow>
                              (case team_pixel a ib RIGHT of
                                 Inl e \<Rightarrow> []
                               | Inr c2 \<Rightarrow> [c1, c2])).
          tie lib a color \<longrightarrow> name_team1 a = name_team2 a)"
proof (cases "team_pixel a ia LEFT")
  case (Inl e)
  then show ?thesis by (simp add: get_icon_team_pixel)
next
  case l: (Inr c1)
  show ?thesis
  proof (cases "team_pixel a ib RIGHT")
    case (Inl e)
    with l show ?thesis by (simp add: get_icon_team_pixel)
  next
    case (Inr c2)
    with l show ?thesis
      by (simp add: get_icon_team_pixel nearest_team_swap_iff
            pair_event_swap_iff [OF nearest_team_names nearest_team_names])
  qed
qed

lemma generate_killfeed_swap_iff:
  "generate_killfeed lib (swap_colors a) ms = map_sum id (swap_event a) (generate_killfeed lib a ms)
     \<longleftrightarrow> (\<forall>color \<in> set (event_pixels a ms). tie lib a color \<longrightarrow> name_team1 a = name_team2 a)"
proof (cases ms)
  case Nil
  then show ?thesis by simp
next
  case (Cons m0 rest)
  show ?thesis
  proof (cases rest)
    case Nil
    with Cons show ?thesis using single_swap_iff [of lib a m0] by simp
  next
    case c: (Cons m1 rest')
    show ?thesis
    proof (cases "match_x m0 > match_x m1")
      case True
      with Cons c ordered_swap_iff [where ia = m1 and ib = m0 and a = a and lib = lib] show ?thesis by simp
    next
      case False
      with Cons c ordered_swap_iff [where ia = m0 and ib = m1 and a = a and lib = lib] show ?thesis by simp
    qed
  qed
qed

lemma map_sum_Some_iff:
  "map_sum id Some x = map_sum id (map_option f) (map_sum id Some y) \<longleftrightarrow> x = map_sum id f y"
  by (cases x; cases y) simp_all

lemma decide_swap_iff:
  "decide lib (swap_colors a) ms = map_sum id (map_option (swap_event a)) (decide lib a ms)
     \<longleftrightarrow> (\<forall>color \<in> set (decide_pixels a ms). tie lib a color \<longrightarrow> name_team1 a = name_team2 a)"
proof (cases "length ms = 0")
  case True
  then show ?thesis by (simp add: decide_def decide_pixels_def)
next
  case n0: False
  show ?thesis
  proof (cases "length ms = 1")
    case True
    show ?thesis
    proof (cases "match_x (ms ! 0) < KILLFEED_MAX_WIDTH a - KILLFEED_CHARACTER2_MAX_WIDTH a")
      case d: True
      with True show ?thesis by (simp add: decide_def decide_pixels_def)
    next
      case False
      with True n0 show ?thesis
        by (simp add: decide_def decide_pixels_def map_sum_Some_iff generate_killfeed_swap_iff)
    qed
  next
    case False
    with n0 show ?thesis
      by (simp add: decide_def decide_pixels_def map_sum_Some_iff generate_killfeed_swap_iff)
  qed
qed

lemma analyse_swap_iff:
  "analyse lib (swap_colors a) = map_sum id (map_option (swap_event a)) (analyse lib a)
     \<longleftrightarrow> (\<forall>color \<in> set (analysis_pixels lib a). tie lib a color \<longrightarrow> name_team1 a = name_team2 a)"
proof (cases "validate_edge lib a (killfeed_image a)")
  case (Inl e)
  then show ?thesis by (simp add: analyse_def analysis_pixels_def)
next
  case ev: (Inr ev)
  show ?thesis
  proof (cases "get_icons_weights lib a (killfeed_image a) ev")
    case (Inl e)
    with ev show ?thesis by (simp add: analyse_def analysis_pixels_def)
  next
    case iw: (Inr iw)
    show ?thesis
    proof (cases "matched_icons ev (best_matches iw)")
      case (Inl e)
      with ev iw show ?thesis by (simp add: analyse_def analysis_pixels_def)
    next
      case (Inr ms)
      with ev iw show ?thesis by (simp add: analyse_def analysis_pixels_def decide_swap_iff)
    qed
  qed
qed

section \<open>Properties of the edge validator and of the decision\<close>

lemma edge_loop_shape:
  "edge_loop a es acc cols = Inr r \<Longrightarrow> \<exists>bs. r = acc @ bs \<and> length bs = length cols"
proof (induction cols arbitrary: acc)
  case Nil
  then show ?case by simp
next
  case (Cons i cols)
  from Cons.prems obtain b where r: "edge_loop a es (acc @ [b]) cols = Inr r"
    by (auto split: sum.splits)
  from Cons.IH [OF r] obtain bs where "r = (acc @ [b]) @ bs" "length bs = length cols" by blast
  then have "r = acc @ (b # bs) \<and> length (b # bs) = length (i # cols)" by simp
  then show ?case by blast
qed

lemma length_py_range: "length (py_range a b) = nat (b - a)"
  by (simp add: py_range_def)

lemma validate_edge_shape:
  assumes "validate_edge lib a img = Inr m"
  shows "\<exists>bs. m = [False, False] @ bs @ replicate 6 False
            \<and> length bs = nat (KILLFEED_MAX_WIDTH a - 40)"
proof -
  from assms obtain r where
    r: "edge_loop a (edge_sum a (Canny lib img)) [False, False]
          (py_range 2 (KILLFEED_MAX_WIDTH a - 38)) = Inr r"
    and m: "m = r @ replicate 6 False"
    by (auto simp: validate_edge_def Let_def split: if_splits sum.splits)
  from edge_loop_shape [OF r] obtain bs where
    "r = [False, False] @ bs" "length bs = length (py_range 2 (KILLFEED_MAX_WIDTH a - 38))"
    by blast
  with m have "m = [False, False] @ bs @ replicate 6 False
      \<and> length bs = nat (KILLFEED_MAX_WIDTH a - 40)"
    by (simp add: length_py_range)
  then show ?thesis by blast
qed

lemma validate_edge_length:
  assumes "validate_edge lib a img = Inr m"
  shows "length m = 8 + nat (KILLFEED_MAX_WIDTH a - 40)"
    and "take 2 m = [False, False]"
    and "drop (length m - 6) m = replicate 6 False"
proof -
  from validate_edge_shape [OF assms] obtain bs where
    m: "m = [False, False] @ bs @ replicate 6 False" and
    l: "length bs = nat (KILLFEED_MAX_WIDTH a - 40)" by blast
  show "length m = 8 + nat (KILLFEED_MAX_WIDTH a - 40)" using m l by simp
  show "take 2 m = [False, False]" using m by simp
  show "drop (length m - 6) m = replicate 6 False" using m by simp
qed

lemma valid_column_bounds:
  assumes "validate_edge lib a img = Inr m" and "0 \<le> c" and "py_index m c = Inr True"
  shows "2 \<le> c \<and> c < KILLFEED_MAX_WIDTH a - 38"
proof -
  from validate_edge_shape [OF assms(1)] obtain bs where
    m: "m = [False, False] @ bs @ replicate 6 False" and
    l: "length bs = nat (KILLFEED_MAX_WIDTH a - 40)" by blast
  from assms(2,3) have lt: "nat c < length m" and tr: "m ! nat c"
    by (auto simp: py_index_def split: if_splits)
  have c2: "2 \<le> nat c"
  proof (rule ccontr)
    assume "\<not> 2 \<le> nat c"
    then have "nat c = 0 \<or> nat c = 1" by arith
    with tr m show False by auto
  qed
  have cb: "nat c < 2 + length bs"
  proof (rule ccontr)
    assume "\<not> nat c < 2 + length bs"
    then have ge: "2 + length bs \<le> nat c" by simp
    from lt m have k: "nat c - 2 - length bs < 6" by simp
    from ge have "\<not> nat c - 2 < length bs" by simp
    with m tr have "replicate 6 False ! (nat c - 2 - length bs)"
      using c2 by (simp add: nth_append nth_Cons' split: if_splits)
    with k show False by simp
  qed
  from c2 cb l assms(2) show ?thesis by linarith
qed

lemma py_max_nonempty: "xs \<noteq> [] \<Longrightarrow> \<exists>v. py_max xs = Inr v"
  by (cases xs) (simp_all add: py_max_def)

lemma py_slice_nonempty:
  "0 \<le> lo \<Longrightarrow> lo < hi \<Longrightarrow> lo < int (length xs) \<Longrightarrow> py_slice xs lo hi \<noteq> []"
  by (simp add: py_slice_def slice_bound_def Let_def min_def) linarith

lemma edge_test_total:
  assumes "2 \<le> i" and "i + 33 < int (length es)"
  shows "\<exists>b. edge_test a es i = Inr b"
proof -
  have "py_slice es (i - 2) (i + 2) \<noteq> []"
    using assms by (intro py_slice_nonempty) simp_all
  then obtain l where l: "py_max (py_slice es (i - 2) (i + 2)) = Inr l"
    using py_max_nonempty by blast
  have "py_slice es (i + 33) (i + 37) \<noteq> []"
    using assms by (intro py_slice_nonempty) simp_all
  then obtain r where r: "py_max (py_slice es (i + 33) (i + 37)) = Inr r"
    using py_max_nonempty by blast
  from l r show ?thesis by (cases "threshold_left a \<le> l") (auto simp: edge_test_def)
qed

lemma edge_loop_total:
  assumes "\<forall>i \<in> set cols. 2 \<le> i \<and> i + 33 < int (length es)"
  shows "\<exists>r. edge_loop a es acc cols = Inr r"
  using assms
proof (induction cols arbitrary: acc)
  case Nil
  show ?case by simp
next
  case (Cons i cols)
  then have "2 \<le> i" "i + 33 < int (length es)" by simp_all
  from edge_test_total [OF this] obtain b where b: "edge_test a es i = Inr b" by blast
  from Cons have "\<exists>r. edge_loop a es (acc @ [b]) cols = Inr r" by simp
  with b show ?case by simp
qed

lemma length_edge_sum: "length (edge_sum a e) = shape1 e"
  by (simp add: edge_sum_def)

lemma validate_edge_total:
  assumes "ICON_CHARACTER_HEIGHT a \<noteq> 0"
    and "KILLFEED_MAX_WIDTH a - 5 \<le> int (shape1 (Canny lib img))"
  shows "\<exists>m. validate_edge lib a img = Inr m"
proof -
  have "\<forall>i \<in> set (py_range 2 (KILLFEED_MAX_WIDTH a - 38)).
          2 \<le> i \<and> i + 33 < int (length (edge_sum a (Canny lib img)))"
    using assms(2) by (auto simp: py_range_def length_edge_sum)
  from edge_loop_total [OF this]
  obtain r where "edge_loop a (edge_sum a (Canny lib img)) [False, False]
          (py_range 2 (KILLFEED_MAX_WIDTH a - 38)) = Inr r" by blast
  with assms(1) show ?thesis by (simp add: validate_edge_def)
qed

lemma get_killfeed_keeps_instance: "snd (get_killfeed lib a) = a"
  by (simp add: get_killfeed_def split: option.splits)

lemma py_slice_first_two: "py_slice (m0 # m1 # rest) 0 2 = [m0, m1]"
  by (simp add: py_slice_def slice_bound_def)

lemma decide_two:
  "decide lib a (m0 # m1 # rest) = map_sum id Some (generate_killfeed lib a [m0, m1])"
  by (simp add: decide_def py_slice_first_two)

lemma decide_one:
  "decide lib a [m] =
     (if match_x m < KILLFEED_MAX_WIDTH a - KILLFEED_CHARACTER2_MAX_WIDTH a then Inr None
      else map_sum id Some (generate_killfeed lib a [m]))"
  by (simp add: decide_def)

section \<open>Claims\<close>

subsection \<open>The edge mask\<close>

text \<open>
  C1, as the code has it. Whenever \<open>_validate_edge\<close> returns, its mask has
  \<open>2 + max(0, KILLFEED_MAX_WIDTH - 40) + 6\<close> entries, which is the row width minus 32 for
  a row width of at least 40; its first two and its last six entries are false. It
  returns whenever the template height is not 0 and the edge image has at least
  \<open>KILLFEED_MAX_WIDTH - 5\<close> columns.
\<close>

theorem validate_edge_mask_shape:
  "(validate_edge lib a img = Inr m \<longrightarrow>
      length m = 8 + nat (KILLFEED_MAX_WIDTH a - 40)
      \<and> (40 \<le> KILLFEED_MAX_WIDTH a \<longrightarrow> int (length m) = KILLFEED_MAX_WIDTH a - 32)
      \<and> take 2 m = [False, False]
      \<and> drop (length m - 6) m = replicate 6 False)
   \<and> (ICON_CHARACTER_HEIGHT a \<noteq> 0
        \<and> KILLFEED_MAX_WIDTH a - 5 \<le> int (shape1 (Canny lib img))
      \<longrightarrow> (\<exists>m'. validate_edge lib a img = Inr m'))"
proof (intro conjI impI)
  assume r: "validate_edge lib a img = Inr m"
  from validate_edge_length [OF r]
  show "length m = 8 + nat (KILLFEED_MAX_WIDTH a - 40)"
    and "take 2 m = [False, False]"
    and "drop (length m - 6) m = replicate 6 False"
    by simp_all
  assume "40 \<le> KILLFEED_MAX_WIDTH a"
  with validate_edge_length(1) [OF r]
  show "int (length m) = KILLFEED_MAX_WIDTH a - 32" by simp
next
  assume "ICON_CHARACTER_HEIGHT a \<noteq> 0
        \<and> KILLFEED_MAX_WIDTH a - 5 \<le> int (shape1 (Canny lib img))"
  then show "\<exists>m'. validate_edge lib a img = Inr m'"
    using validate_edge_total [of a lib img] by blast
qed

text \<open>
  The statement at the row of 41 pixels: the mask has 9 entries, only column 2 is valid.
\<close>

theorem validate_edge_mask_shape_witness:
  "validate_edge (demo_library [[9/10]]) demo_analyzer (demo_row 41)
     = Inr [False, False, True, False, False, False, False, False, False]
   \<and> length [False, False, True, False, False, False, False, False, False]
     = 8 + nat (KILLFEED_MAX_WIDTH demo_analyzer - 40)
   \<and> int (length [False, False, True, False, False, False, False, False, False])
     = KILLFEED_MAX_WIDTH demo_analyzer - 32
   \<and> (\<exists>m'. validate_edge (demo_library [[9/10]]) demo_analyzer (demo_row 41) = Inr m')"
proof -
  let ?L = "demo_library [[9/10]]"
  let ?M = "[False, False, True, False, False, False, False, False, False]"
  have r: "validate_edge ?L demo_analyzer (demo_row 41) = Inr ?M"
    by code_simp
  have w: "40 \<le> KILLFEED_MAX_WIDTH demo_analyzer"
    by code_simp
  have t: "ICON_CHARACTER_HEIGHT demo_analyzer \<noteq> 0
        \<and> KILLFEED_MAX_WIDTH demo_analyzer - 5 \<le> int (shape1 (Canny ?L (demo_row 41)))"
    by code_simp
  from validate_edge_mask_shape [of ?L demo_analyzer "demo_row 41" ?M] r w t
  show ?thesis by blast
qed

text \<open>
  C1 as stated fails: for the row width 41 the mask has 9 entries, not 41.
\<close>

theorem validate_edge_length_not_row_width:
  "validate_edge (demo_library [[9/10]]) demo_analyzer (demo_row 41)
     = Inr [False, False, True, False, False, False, False, False, False]
   \<and> int (length [False, False, True, False, False, False, False, False, False])
     \<noteq> KILLFEED_MAX_WIDTH demo_analyzer"
  by code_simp

subsection \<open>The cache\<close>

text \<open>
  C2 fails on the code: \<open>get_killfeed\<close> tests \<open>self.killfeed\<close> but never assigns
  it. A call leaves the instance as it was, so after a call on a new instance the cache is
  still empty and the next call runs the whole analysis again.
\<close>

theorem get_killfeed_never_fills_cache:
  "snd (get_killfeed lib a) = a
   \<and> killfeed (snd (get_killfeed lib (init_analyzer img frame_analyzer))) = None
   \<and> fst (get_killfeed lib (snd (get_killfeed lib (init_analyzer img frame_analyzer))))
     = analyse lib (init_analyzer img frame_analyzer)"
  by (simp add: get_killfeed_keeps_instance)
     (simp add: get_killfeed_def init_analyzer_def)

subsection \<open>The selector\<close>

text \<open>
  C3. Of the entries of \<open>best_matches\<close>, the acceptance loop keeps exactly those whose
  score is not below the threshold 0.6 and whose column is true in the edge mask; the
  loop returns whenever the column of every entry that reaches the threshold is an index
  of the mask. A score of exactly 0.6 (the float, or the rational 6/10) is accepted, a
  score of 0.5999 is rejected.
\<close>

theorem selector_accepts_iff_threshold_and_edge:
  "(matched_icons ev best = Inr acc \<and> item \<in> set best \<longrightarrow>
      (item \<in> set acc \<longleftrightarrow>
         score_threshold \<le> score item \<and> py_index ev (match_x item) = Inr True))
   \<and> ((\<forall>item \<in> set best. score_threshold \<le> score item \<longrightarrow>
          - int (length ev) \<le> match_x item \<and> match_x item < int (length ev))
      \<longrightarrow> (\<exists>acc'. matched_icons ev best = Inr acc'))
   \<and> matched_icons [False, False, True]
        [\<lparr>object_name = n, score = score_threshold, match_x = 2\<rparr>]
      = Inr [\<lparr>object_name = n, score = score_threshold, match_x = 2\<rparr>]
   \<and> matched_icons [False, False, True] [\<lparr>object_name = n, score = 6/10, match_x = 2\<rparr>]
      = Inr [\<lparr>object_name = n, score = 6/10, match_x = 2\<rparr>]
   \<and> matched_icons [False, False, True] [\<lparr>object_name = n, score = 5999/10000, match_x = 2\<rparr>]
      = Inr []"
proof (intro conjI impI)
  assume "matched_icons ev best = Inr acc \<and> item \<in> set best"
  then show "item \<in> set acc \<longleftrightarrow>
      score_threshold \<le> score item \<and> py_index ev (match_x item) = Inr True"
    using matched_icons_mem [of ev best acc item] by blast
next
  assume "\<forall>item \<in> set best. score_threshold \<le> score item \<longrightarrow>
          - int (length ev) \<le> match_x item \<and> match_x item < int (length ev)"
  then show "\<exists>acc'. matched_icons ev best = Inr acc'"
    by (rule matched_icons_total)
next
  show "matched_icons [False, False, True]
        [\<lparr>object_name = n, score = score_threshold, match_x = 2\<rparr>]
      = Inr [\<lparr>object_name = n, score = score_threshold, match_x = 2\<rparr>]"
    by (simp add: py_index_def)
next
  show "matched_icons [False, False, True] [\<lparr>object_name = n, score = 6/10, match_x = 2\<rparr>]
      = Inr [\<lparr>object_name = n, score = 6/10, match_x = 2\<rparr>]"
    by (simp add: py_index_def score_threshold_def)
next
  show "matched_icons [False, False, True] [\<lparr>object_name = n, score = 5999/10000, match_x = 2\<rparr>]
      = Inr []"
    by (simp add: py_index_def score_threshold_def)
qed

text \<open>
  The statement at a top 3 made of a match of score 0.9 on the valid column 2, a match
  of score 0.5 and a placeholder: the loop returns, and only the first is accepted.
\<close>

theorem selector_accepts_iff_threshold_and_edge_witness:
  "matched_icons [False, False, True]
      [\<lparr>object_name = ''ana'', score = 9/10, match_x = 2\<rparr>,
       \<lparr>object_name = ''bob'', score = 1/2, match_x = 2\<rparr>, no_match]
     = Inr [\<lparr>object_name = ''ana'', score = 9/10, match_x = 2\<rparr>]
   \<and> \<lparr>object_name = ''bob'', score = 1/2, match_x = 2\<rparr>
       \<notin> set [\<lparr>object_name = ''ana'', score = 9/10, match_x = 2\<rparr>]
   \<and> (\<exists>acc'. matched_icons [False, False, True]
        [\<lparr>object_name = ''ana'', score = 9/10, match_x = 2\<rparr>,
         \<lparr>object_name = ''bob'', score = 1/2, match_x = 2\<rparr>, no_match] = Inr acc')"
proof -
  let ?ev = "[False, False, True]"
  let ?a = "\<lparr>object_name = ''ana'', score = 9/10, match_x = 2\<rparr>"
  let ?b = "\<lparr>object_name = ''bob'', score = 1/2, match_x = 2\<rparr>"
  have r: "matched_icons ?ev [?a, ?b, no_match] = Inr [?a]"
    by (simp add: py_index_def score_threshold_def no_match_def)
  have b: "?b \<in> set [?a, ?b, no_match]" by simp
  have low: "\<not> score_threshold \<le> score ?b"
    by (simp add: score_threshold_def)
  have rng: "\<forall>item \<in> set [?a, ?b, no_match]. score_threshold \<le> score item \<longrightarrow>
          - int (length ?ev) \<le> match_x item \<and> match_x item < int (length ?ev)"
    by (simp add: score_threshold_def no_match_def)
  from selector_accepts_iff_threshold_and_edge [of ?ev "[?a, ?b, no_match]" "[?a]" ?b] r b low
  have nb: "?b \<notin> set [?a]" by blast
  from selector_accepts_iff_threshold_and_edge [of ?ev "[?a, ?b, no_match]" "[?a]" ?b] rng
  have "\<exists>acc'. matched_icons ?ev [?a, ?b, no_match] = Inr acc'" by blast
  with r nb show ?thesis by blast
qed

text \<open>
  C5. The top-3 insertion scan of \<open>get_killfeed\<close> keeps the three highest-scoring
  entries, earlier-seen ones first on equal scores: its result is the first three
  places of the stable sort by descending score of the three placeholders followed by the
  candidates in the order they were seen (\<open>sort_key\<close> keeps the input order of equal
  keys). A candidate whose score does not strictly exceed the score of any slot leaves
  the three slots as they are.
\<close>

theorem top3_scan_keeps_best_stable:
  "best_matches cands = take 3 (sort_key (\<lambda>m. - score m) (replicate 3 no_match @ cands))
   \<and> ((\<forall>k<3. score item \<le> score (best ! k)) \<longrightarrow> top3_step best item = best)"
proof
  show "best_matches cands = take 3 (sort_key (\<lambda>m. - score m) (replicate 3 no_match @ cands))"
    by (rule best_matches_sorted_prefix)
next
  show "(\<forall>k<3. score item \<le> score (best ! k)) \<longrightarrow> top3_step best item = best"
  proof
    assume h: "\<forall>k<3. score item \<le> score (best ! k)"
    have "score item \<le> score (best ! 0)" "score item \<le> score (best ! 1)"
      "score item \<le> score (best ! 2)"
      using h by simp_all
    then show "top3_step best item = best"
      by (simp add: top3_step_def)
  qed
qed

theorem top3_scan_keeps_best_stable_witness:
  "score \<lparr>object_name = ''d'', score = 1/2, match_x = 9\<rparr>
     \<le> score \<lparr>object_name = ''b'', score = 1/2, match_x = 2\<rparr>
   \<and> top3_step [\<lparr>object_name = ''c'', score = 7/10, match_x = 3\<rparr>,
                \<lparr>object_name = ''a'', score = 1/2, match_x = 1\<rparr>,
                \<lparr>object_name = ''b'', score = 1/2, match_x = 2\<rparr>]
        \<lparr>object_name = ''d'', score = 1/2, match_x = 9\<rparr>
      = [\<lparr>object_name = ''c'', score = 7/10, match_x = 3\<rparr>,
         \<lparr>object_name = ''a'', score = 1/2, match_x = 1\<rparr>,
         \<lparr>object_name = ''b'', score = 1/2, match_x = 2\<rparr>]"
proof -
  let ?best = "[\<lparr>object_name = ''c'', score = 7/10, match_x = 3\<rparr>,
                \<lparr>object_name = ''a'', score = 1/2, match_x = 1\<rparr>,
                \<lparr>object_name = ''b'', score = 1/2, match_x = 2\<rparr>]"
  let ?item = "\<lparr>object_name = ''d'', score = 1/2, match_x = 9\<rparr>"
  have h: "\<forall>k<3. score ?item \<le> score (?best ! k)"
  proof (intro allI impI)
    fix k :: nat
    assume "k < 3"
    then have "k = 0 \<or> k = 1 \<or> k = 2" by arith
    then show "score ?item \<le> score (?best ! k)" by auto
  qed
  from top3_scan_keeps_best_stable [of "[]" ?item ?best] h
  have "top3_step ?best ?item = ?best" by blast
  then show ?thesis by simp
qed

subsection \<open>Non-overlap suppression\<close>

text \<open>
  C4 fails on the code. The window that the sparse scorer covers around an accepted
  column \<open>x\<close> is the slice \<open>mask[x-5 : x+5]\<close>, which ends at \<open>x + 4\<close>, whereas the
  dense scorer masks up to \<open>x + 5\<close> with the bound \<open>x + half_mask_width + 1\<close>. On a
  row of 46 pixels without edges, where the columns 2 to 7 are valid and all scores are
  equal, the sparse scorer accepts the column 2 and then the column 7, which is 5 pixels
  away, and \<open>get_killfeed\<close> returns an event made of these two matches.
\<close>

theorem sparse_window_misses_column_x_plus_5:
  "validate_edge (demo_library [[9/10]])
      (demo_analyzer\<lparr>killfeed_image := demo_row 46, KILLFEED_MAX_WIDTH := 46\<rparr>) (demo_row 46)
     = Inr ([False, False] @ replicate 6 True @ replicate 6 False)
   \<and> count_list ([False, False] @ replicate 6 True @ replicate 6 False) True \<le> 7
   \<and> get_icons_weights (demo_library [[9/10]])
        (demo_analyzer\<lparr>killfeed_image := demo_row 46, KILLFEED_MAX_WIDTH := 46\<rparr>) (demo_row 46)
        ([False, False] @ replicate 6 True @ replicate 6 False)
     = Inr [\<lparr>object_name = ''ana'', score = 9/10, match_x = 2\<rparr>,
            \<lparr>object_name = ''ana'', score = 9/10, match_x = 7\<rparr>]
   \<and> \<bar>match_x \<lparr>object_name = ''ana'', score = 9/10, match_x = 7\<rparr>
        - match_x \<lparr>object_name = ''ana'', score = 9/10, match_x = 2\<rparr>\<bar> \<le> 5
   \<and> fst (get_killfeed (demo_library [[9/10]])
            (demo_analyzer\<lparr>killfeed_image := demo_row 46, KILLFEED_MAX_WIDTH := 46\<rparr>))
     = Inr (Some \<lparr>kf_player = ''test'', kf_time = 7, team1 = Some ''A'', team2 = Some ''A'',
                   character1 = Some ''ana'', character2 = Some ''ana'',
                   event = RESURRECTION\<rparr>)"
  by code_simp

text \<open>
  The dense window has a slip of its own: its right end is clamped to
  \<open>KILLFEED_MAX_WIDTH - ICON_CHARACTER_WIDTH\<close>, one short of the width of the
  correlation surface. On a surface of 9 columns with that bound at 8 the peak on the last
  column 8 is not masked, and the second search returns it again.
\<close>

lemma dense_clamp_leaves_last_column:
  "template_peaks (demo_analyzer\<lparr>KILLFEED_MAX_WIDTH := 11\<rparr>) (replicate 9 True) ''ana''
      [[0, 0, 1/10, 0, 0, 0, 0, 0, 1/2]]
     = Inr [\<lparr>object_name = ''ana'', score = 1/2, match_x = 8\<rparr>,
            \<lparr>object_name = ''ana'', score = 1/2, match_x = 8\<rparr>]"
  by code_simp

text \<open>
  The dense scorer runs its suppression inside the surface of one template and does not
  compare the matches of different templates: two templates with the same surface both
  yield a match on column 2, and the analysis of that row reports an event whose two
  icons sit on the same column.
\<close>

lemma dense_matches_share_column:
  "get_icons_weights_full (demo_library [replicate 2 0 @ [9/10] @ replicate 43 0])
      demo_analyzer_wide (demo_row 48) ([False, False] @ replicate 8 True @ replicate 6 False)
     = Inr [\<lparr>object_name = ''ana'', score = 9/10, match_x = 2\<rparr>,
            \<lparr>object_name = ''ana'', score = 0, match_x = 8\<rparr>,
            \<lparr>object_name = ''bob'', score = 9/10, match_x = 2\<rparr>,
            \<lparr>object_name = ''bob'', score = 0, match_x = 8\<rparr>]
   \<and> \<bar>match_x \<lparr>object_name = ''ana'', score = 9/10, match_x = 2\<rparr>
        - match_x \<lparr>object_name = ''bob'', score = 9/10, match_x = 2\<rparr>\<bar> \<le> 5
   \<and> fst (get_killfeed (demo_library [replicate 2 0 @ [9/10] @ replicate 43 0])
            demo_analyzer_wide)
     = Inr (Some \<lparr>kf_player = ''test'', kf_time = 7, team1 = Some ''A'', team2 = Some ''A'',
                   character1 = Some ''ana'', character2 = Some ''bob'',
                   event = RESURRECTION\<rparr>)"
  by code_simp

subsection \<open>The decision on the accepted matches\<close>

text \<open>
  C6, as the code has it. When exactly one match is accepted: if its column is less than
  \<open>KILLFEED_MAX_WIDTH - KILLFEED_CHARACTER2_MAX_WIDTH\<close>, \<open>get_killfeed\<close> returns
  \<open>None\<close>; otherwise, provided the column \<open>x + ICON_CHARACTER_WIDTH + 5\<close> is an index
  of the first image row, it returns the self-elimination event that names the matched
  character, with the team nearest to that pixel.
\<close>

theorem single_match_decision:
  assumes "killfeed a = None"
    and "validate_edge lib a (killfeed_image a) = Inr ev"
    and "get_icons_weights lib a (killfeed_image a) ev = Inr iw"
    and "matched_icons ev (best_matches iw) = Inr [m]"
  shows
  "(match_x m < KILLFEED_MAX_WIDTH a - KILLFEED_CHARACTER2_MAX_WIDTH a \<longrightarrow>
      fst (get_killfeed lib a) = Inr None)
   \<and> (\<not> match_x m < KILLFEED_MAX_WIDTH a - KILLFEED_CHARACTER2_MAX_WIDTH a
        \<and> py_index (killfeed_image a) 0 = Inr row
        \<and> py_index row (match_x m + ICON_CHARACTER_WIDTH a + 5) = Inr color \<longrightarrow>
      fst (get_killfeed lib a)
        = Inr (Some \<lparr>kf_player = ''test'', kf_time = time a, team1 = None,
                      team2 = Some (nearest_team lib a color), character1 = None,
                      character2 = Some (object_name m), event = SUICIDE\<rparr>))"
proof -
  have g: "fst (get_killfeed lib a) = decide lib a [m]"
    using assms by (simp add: get_killfeed_def analyse_def)
  have c: "sample_column a m RIGHT = Inr (match_x m + ICON_CHARACTER_WIDTH a + 5)"
    by (simp add: sample_column_def LEFT_def RIGHT_def)
  show ?thesis
  proof (intro conjI impI)
    assume "match_x m < KILLFEED_MAX_WIDTH a - KILLFEED_CHARACTER2_MAX_WIDTH a"
    then show "fst (get_killfeed lib a) = Inr None"
      by (simp add: g decide_one)
  next
    assume h: "\<not> match_x m < KILLFEED_MAX_WIDTH a - KILLFEED_CHARACTER2_MAX_WIDTH a
        \<and> py_index (killfeed_image a) 0 = Inr row
        \<and> py_index row (match_x m + ICON_CHARACTER_WIDTH a + 5) = Inr color"
    then have r0: "py_index (killfeed_image a) 0 = Inr row"
      and px: "py_index row (match_x m + ICON_CHARACTER_WIDTH a + 5) = Inr color"
      by simp_all
    from get_icon_team_nearest [OF r0 c px]
    have "get_icon_team lib a m RIGHT = Inr (nearest_team lib a color)" .
    with h show "fst (get_killfeed lib a)
        = Inr (Some \<lparr>kf_player = ''test'', kf_time = time a, team1 = None,
                      team2 = Some (nearest_team lib a color), character1 = None,
                      character2 = Some (object_name m), event = SUICIDE\<rparr>)"
      by (simp add: g decide_one suicide_event_def)
  qed
qed

text \<open>
  The statement at two rows with the single match of ``ana'' on column 2: with a
  second-icon width of 40 the event is returned, with a second-icon width of 10 nothing
  is returned.
\<close>

theorem single_match_decision_witness:
  "fst (get_killfeed (demo_library [[9/10]]) demo_analyzer)
     = Inr (Some \<lparr>kf_player = ''test'', kf_time = 7, team1 = None, team2 = Some ''A'',
                   character1 = None, character2 = Some ''ana'', event = SUICIDE\<rparr>)
   \<and> fst (get_killfeed (demo_library [[9/10]])
            (demo_analyzer\<lparr>KILLFEED_CHARACTER2_MAX_WIDTH := 10\<rparr>)) = Inr None"
proof -
  let ?L = "demo_library [[9/10]]"
  let ?ev = "[False, False, True, False, False, False, False, False, False]"
  let ?m = "\<lparr>object_name = ''ana'', score = 9/10, match_x = 2\<rparr>"
  let ?row = "replicate 41 [0, 0, 0] :: pixel list"
  let ?B = "demo_analyzer\<lparr>KILLFEED_CHARACTER2_MAX_WIDTH := 10\<rparr>"
  let ?e = "\<lparr>kf_player = ''test'', kf_time = time demo_analyzer, team1 = None,
              team2 = Some (nearest_team ?L demo_analyzer [0, 0, 0]),
              character1 = None, character2 = Some (object_name ?m), event = SUICIDE\<rparr>"
  have a1: "killfeed demo_analyzer = None" by code_simp
  have a2: "validate_edge ?L demo_analyzer (killfeed_image demo_analyzer) = Inr ?ev" by code_simp
  have a3: "get_icons_weights ?L demo_analyzer (killfeed_image demo_analyzer) ?ev = Inr [?m]"
    by code_simp
  have a4: "matched_icons ?ev (best_matches [?m]) = Inr [?m]" by code_simp
  have a5: "\<not> match_x ?m < KILLFEED_MAX_WIDTH demo_analyzer - KILLFEED_CHARACTER2_MAX_WIDTH demo_analyzer
        \<and> py_index (killfeed_image demo_analyzer) 0 = Inr ?row
        \<and> py_index ?row (match_x ?m + ICON_CHARACTER_WIDTH demo_analyzer + 5) = Inr [0, 0, 0]"
    by code_simp
  have b1: "killfeed ?B = None" by code_simp
  have b2: "validate_edge ?L ?B (killfeed_image ?B) = Inr ?ev" by code_simp
  have b3: "get_icons_weights ?L ?B (killfeed_image ?B) ?ev = Inr [?m]" by code_simp
  have b5: "match_x ?m < KILLFEED_MAX_WIDTH ?B - KILLFEED_CHARACTER2_MAX_WIDTH ?B" by code_simp
  from single_match_decision [OF a1 a2 a3 a4, of ?row "[0, 0, 0]"] a5
  have r1: "fst (get_killfeed ?L demo_analyzer) = Inr (Some ?e)" by blast
  from single_match_decision [OF b1 b2 b3 a4] b5
  have r2: "fst (get_killfeed ?L ?B) = Inr None" by blast
  have e: "?e = \<lparr>kf_player = ''test'', kf_time = 7, team1 = None, team2 = Some ''A'',
                   character1 = None, character2 = Some ''ana'', event = SUICIDE\<rparr>"
    by code_simp
  from r1 r2 show ?thesis unfolding e by blast
qed

text \<open>
  C6 as stated fails: with a template width of 34 on the row of 41 pixels exactly one
  match is accepted, on column 2, which is not left of \<open>41 - 40\<close>; the team pixel would
  be column 41, one beyond the row, and \<open>get_killfeed\<close> raises IndexError instead of
  returning an event.
\<close>

theorem single_match_raises_index_error:
  "validate_edge (demo_library [[9/10]]) (demo_analyzer\<lparr>ICON_CHARACTER_WIDTH := 34\<rparr>) (demo_row 41)
     = Inr [False, False, True, False, False, False, False, False, False]
   \<and> get_icons_weights (demo_library [[9/10]]) (demo_analyzer\<lparr>ICON_CHARACTER_WIDTH := 34\<rparr>)
        (demo_row 41) [False, False, True, False, False, False, False, False, False]
     = Inr [\<lparr>object_name = ''ana'', score = 9/10, match_x = 2\<rparr>]
   \<and> matched_icons [False, False, True, False, False, False, False, False, False]
        (best_matches [\<lparr>object_name = ''ana'', score = 9/10, match_x = 2\<rparr>])
     = Inr [\<lparr>object_name = ''ana'', score = 9/10, match_x = 2\<rparr>]
   \<and> \<not> match_x \<lparr>object_name = ''ana'', score = 9/10, match_x = 2\<rparr>
         < KILLFEED_MAX_WIDTH (demo_analyzer\<lparr>ICON_CHARACTER_WIDTH := 34\<rparr>)
           - KILLFEED_CHARACTER2_MAX_WIDTH (demo_analyzer\<lparr>ICON_CHARACTER_WIDTH := 34\<rparr>)
   \<and> fst (get_killfeed (demo_library [[9/10]]) (demo_analyzer\<lparr>ICON_CHARACTER_WIDTH := 34\<rparr>))
     = Inl IndexError"
  by code_simp

text \<open>The same with a template width of 38, where the team pixel would be column 45.\<close>

lemma wide_template_read_raises:
  "fst (get_killfeed (demo_library [[9/10]]) (demo_analyzer\<lparr>ICON_CHARACTER_WIDTH := 38\<rparr>))
     = Inl IndexError"
  by code_simp

text \<open>
  C7. When two or more matches are accepted, the first two are put in the order of
  their columns, the left one is classified as the left icon and the right one as the
  right icon, and the event is a resurrection if the two teams are equal and an
  elimination otherwise. The event is returned whenever the two sampled columns are
  indices of the first image row.
\<close>

theorem two_matches_ordered_and_classified:
  "(py_index (killfeed_image a) 0 = Inr row \<and> match_x m0 \<le> match_x m1
      \<and> py_index row (match_x m0 - 5) = Inr c1
      \<and> py_index row (match_x m1 + ICON_CHARACTER_WIDTH a + 5) = Inr c2 \<longrightarrow>
      decide lib a (m0 # m1 # rest)
        = Inr (Some \<lparr>kf_player = ''test'', kf_time = time a,
                      team1 = Some (nearest_team lib a c1), team2 = Some (nearest_team lib a c2),
                      character1 = Some (object_name m0), character2 = Some (object_name m1),
                      event = (if nearest_team lib a c1 = nearest_team lib a c2
                               then RESURRECTION else ELIMINATION)\<rparr>))
   \<and> (py_index (killfeed_image a) 0 = Inr row \<and> match_x m1 < match_x m0
      \<and> py_index row (match_x m1 - 5) = Inr c1
      \<and> py_index row (match_x m0 + ICON_CHARACTER_WIDTH a + 5) = Inr c2 \<longrightarrow>
      decide lib a (m0 # m1 # rest)
        = Inr (Some \<lparr>kf_player = ''test'', kf_time = time a,
                      team1 = Some (nearest_team lib a c1), team2 = Some (nearest_team lib a c2),
                      character1 = Some (object_name m1), character2 = Some (object_name m0),
                      event = (if nearest_team lib a c1 = nearest_team lib a c2
                               then RESURRECTION else ELIMINATION)\<rparr>))"
proof (intro conjI impI)
  assume h: "py_index (killfeed_image a) 0 = Inr row \<and> match_x m0 \<le> match_x m1
      \<and> py_index row (match_x m0 - 5) = Inr c1
      \<and> py_index row (match_x m1 + ICON_CHARACTER_WIDTH a + 5) = Inr c2"
  have l: "get_icon_team lib a m0 LEFT = Inr (nearest_team lib a c1)"
    using h get_icon_team_nearest [of a row m0 LEFT "match_x m0 - 5" c1 lib]
    by (simp add: sample_column_def)
  have r: "get_icon_team lib a m1 RIGHT = Inr (nearest_team lib a c2)"
    using h get_icon_team_nearest
            [of a row m1 RIGHT "match_x m1 + ICON_CHARACTER_WIDTH a + 5" c2 lib]
    by (simp add: sample_column_def LEFT_def RIGHT_def)
  from h l r show "decide lib a (m0 # m1 # rest)
        = Inr (Some \<lparr>kf_player = ''test'', kf_time = time a,
                      team1 = Some (nearest_team lib a c1), team2 = Some (nearest_team lib a c2),
                      character1 = Some (object_name m0), character2 = Some (object_name m1),
                      event = (if nearest_team lib a c1 = nearest_team lib a c2
                               then RESURRECTION else ELIMINATION)\<rparr>)"
    by (simp add: decide_two pair_event_def)
next
  assume h: "py_index (killfeed_image a) 0 = Inr row \<and> match_x m1 < match_x m0
      \<and> py_index row (match_x m1 - 5) = Inr c1
      \<and> py_index row (match_x m0 + ICON_CHARACTER_WIDTH a + 5) = Inr c2"
  have l: "get_icon_team lib a m1 LEFT = Inr (nearest_team lib a c1)"
    using h get_icon_team_nearest [of a row m1 LEFT "match_x m1 - 5" c1 lib]
    by (simp add: sample_column_def)
  have r: "get_icon_team lib a m0 RIGHT = Inr (nearest_team lib a c2)"
    using h get_icon_team_nearest
            [of a row m0 RIGHT "match_x m0 + ICON_CHARACTER_WIDTH a + 5" c2 lib]
    by (simp add: sample_column_def LEFT_def RIGHT_def)
  from h l r show "decide lib a (m0 # m1 # rest)
        = Inr (Some \<lparr>kf_player = ''test'', kf_time = time a,
                      team1 = Some (nearest_team lib a c1), team2 = Some (nearest_team lib a c2),
                      character1 = Some (object_name m1), character2 = Some (object_name m0),
                      event = (if nearest_team lib a c1 = nearest_team lib a c2
                               then RESURRECTION else ELIMINATION)\<rparr>)"
    by (simp add: decide_two pair_event_def)
qed

text \<open>
  The statement at a row whose last three pixels have the colour of team two, with
  the matches ``bob'' on column 6 and ``ana'' on column 30, given in both orders: in
  both the event names ``bob'' first, and it is an elimination.
\<close>

theorem two_matches_ordered_and_classified_witness:
  "decide (demo_library [[9/10]])
      (demo_analyzer\<lparr>killfeed_image := [replicate 38 [0, 0, 0] @ replicate 3 [0, 20, 0]]\<rparr>)
      [\<lparr>object_name = ''bob'', score = 4/5, match_x = 6\<rparr>,
       \<lparr>object_name = ''ana'', score = 9/10, match_x = 30\<rparr>]
     = Inr (Some \<lparr>kf_player = ''test'', kf_time = 7, team1 = Some ''A'', team2 = Some ''B'',
                   character1 = Some ''bob'', character2 = Some ''ana'',
                   event = ELIMINATION\<rparr>)
   \<and> decide (demo_library [[9/10]])
      (demo_analyzer\<lparr>killfeed_image := [replicate 38 [0, 0, 0] @ replicate 3 [0, 20, 0]]\<rparr>)
      [\<lparr>object_name = ''ana'', score = 9/10, match_x = 30\<rparr>,
       \<lparr>object_name = ''bob'', score = 4/5, match_x = 6\<rparr>]
     = Inr (Some \<lparr>kf_player = ''test'', kf_time = 7, team1 = Some ''A'', team2 = Some ''B'',
                   character1 = Some ''bob'', character2 = Some ''ana'',
                   event = ELIMINATION\<rparr>)"
proof -
  let ?L = "demo_library [[9/10]]"
  let ?row = "replicate 38 [0, 0, 0] @ replicate 3 [0, 20, 0] :: pixel list"
  let ?A = "demo_analyzer\<lparr>killfeed_image := [?row]\<rparr>"
  let ?b = "\<lparr>object_name = ''bob'', score = 4/5, match_x = 6\<rparr>"
  let ?a = "\<lparr>object_name = ''ana'', score = 9/10, match_x = 30\<rparr>"
  let ?e = "\<lparr>kf_player = ''test'', kf_time = time ?A,
               team1 = Some (nearest_team ?L ?A [0, 0, 0]),
               team2 = Some (nearest_team ?L ?A [0, 20, 0]),
               character1 = Some (object_name ?b), character2 = Some (object_name ?a),
               event = (if nearest_team ?L ?A [0, 0, 0] = nearest_team ?L ?A [0, 20, 0]
                        then RESURRECTION else ELIMINATION)\<rparr>"
  have h1: "py_index (killfeed_image ?A) 0 = Inr ?row \<and> match_x ?b \<le> match_x ?a
      \<and> py_index ?row (match_x ?b - 5) = Inr [0, 0, 0]
      \<and> py_index ?row (match_x ?a + ICON_CHARACTER_WIDTH ?A + 5) = Inr [0, 20, 0]"
    by code_simp
  have h2: "py_index (killfeed_image ?A) 0 = Inr ?row \<and> match_x ?b < match_x ?a
      \<and> py_index ?row (match_x ?b - 5) = Inr [0, 0, 0]
      \<and> py_index ?row (match_x ?a + ICON_CHARACTER_WIDTH ?A + 5) = Inr [0, 20, 0]"
    by code_simp
  from two_matches_ordered_and_classified [of ?A ?row ?b ?a "[0, 0, 0]" "[0, 20, 0]" ?L "[]"] h1
  have r1: "decide ?L ?A [?b, ?a] = Inr (Some ?e)" by blast
  from two_matches_ordered_and_classified [of ?A ?row ?a ?b "[0, 0, 0]" "[0, 20, 0]" ?L "[]"] h2
  have r2: "decide ?L ?A [?a, ?b] = Inr (Some ?e)" by blast
  have e: "?e = \<lparr>kf_player = ''test'', kf_time = 7, team1 = Some ''A'', team2 = Some ''B'',
                   character1 = Some ''bob'', character2 = Some ''ana'',
                   event = ELIMINATION\<rparr>"
    by code_simp
  from r1 r2 show ?thesis unfolding e by blast
qed

subsection \<open>Team classification\<close>

text \<open>
  C8. \<open>_get_icon_team\<close> reads the pixel of the first image row at column \<open>x - 5\<close> for
  a left icon and at column \<open>x + ICON_CHARACTER_WIDTH + 5\<close> for a right icon, and
  returns the team whose colour is nearer to that pixel, team one when the two distances
  are equal.
\<close>

theorem icon_team_samples_and_picks_nearest:
  "sample_column a icon LEFT = Inr (match_x icon - 5)
   \<and> sample_column a icon RIGHT = Inr (match_x icon + ICON_CHARACTER_WIDTH a + 5)
   \<and> (py_index (killfeed_image a) 0 = Inr row \<and> sample_column a icon position = Inr c
        \<and> py_index row c = Inr color \<longrightarrow>
      get_icon_team lib a icon position = Inr (nearest_team lib a color)
      \<and> (color_distance lib color (color_team1 a) \<le> color_distance lib color (color_team2 a)
          \<longrightarrow> get_icon_team lib a icon position = Inr (name_team1 a))
      \<and> (color_distance lib color (color_team2 a) < color_distance lib color (color_team1 a)
          \<longrightarrow> get_icon_team lib a icon position = Inr (name_team2 a)))"
proof (intro conjI impI)
  show "sample_column a icon LEFT = Inr (match_x icon - 5)"
    by (simp add: sample_column_def)
  show "sample_column a icon RIGHT = Inr (match_x icon + ICON_CHARACTER_WIDTH a + 5)"
    by (simp add: sample_column_def LEFT_def RIGHT_def)
next
  assume h: "py_index (killfeed_image a) 0 = Inr row \<and> sample_column a icon position = Inr c
        \<and> py_index row c = Inr color"
  then show t: "get_icon_team lib a icon position = Inr (nearest_team lib a color)"
    using get_icon_team_nearest [of a row icon position c color lib] by blast
  {
    assume "color_distance lib color (color_team1 a) \<le> color_distance lib color (color_team2 a)"
    then show "get_icon_team lib a icon position = Inr (name_team1 a)"
      by (simp add: t nearest_team_def)
  }
  {
    assume "color_distance lib color (color_team2 a) < color_distance lib color (color_team1 a)"
    then show "get_icon_team lib a icon position = Inr (name_team2 a)"
      by (simp add: t nearest_team_def)
  }
qed

text \<open>
  The statement at the black row, whose pixels are nearer to the colour of team one,
  for a right icon on column 2.
\<close>

theorem icon_team_samples_and_picks_nearest_witness:
  "py_index (killfeed_image demo_analyzer) 0 = Inr (replicate 41 [0, 0, 0])
   \<and> sample_column demo_analyzer \<lparr>object_name = ''ana'', score = 9/10, match_x = 2\<rparr> RIGHT
     = Inr 10
   \<and> py_index (replicate 41 [0, 0, 0] :: pixel list) 10 = Inr [0, 0, 0]
   \<and> color_distance (demo_library [[9/10]]) [0, 0, 0] (color_team1 demo_analyzer)
     \<le> color_distance (demo_library [[9/10]]) [0, 0, 0] (color_team2 demo_analyzer)
   \<and> get_icon_team (demo_library [[9/10]]) demo_analyzer
        \<lparr>object_name = ''ana'', score = 9/10, match_x = 2\<rparr> RIGHT
     = Inr (name_team1 demo_analyzer)"
proof -
  let ?L = "demo_library [[9/10]]"
  let ?m = "\<lparr>object_name = ''ana'', score = 9/10, match_x = 2\<rparr>"
  let ?row = "replicate 41 [0, 0, 0] :: pixel list"
  have h: "py_index (killfeed_image demo_analyzer) 0 = Inr ?row
      \<and> sample_column demo_analyzer ?m RIGHT = Inr 10
      \<and> py_index ?row 10 = Inr [0, 0, 0]"
    by code_simp
  have d: "color_distance ?L [0, 0, 0] (color_team1 demo_analyzer)
     \<le> color_distance ?L [0, 0, 0] (color_team2 demo_analyzer)"
    by code_simp
  from icon_team_samples_and_picks_nearest [of demo_analyzer ?m ?row RIGHT 10 "[0, 0, 0]" ?L] h d
  have "get_icon_team ?L demo_analyzer ?m RIGHT = Inr (name_team1 demo_analyzer)" by blast
  with h d show ?thesis by blast
qed

text \<open>
  C9, as the code has it. One classification with the two team colours exchanged
  returns the other label exactly when the sampled pixel is not equally far from the two
  colours (or the two team names are the same). For the whole analysis: the run with the
  colours exchanged returns the result of the original run with the two team labels
  exchanged in the event exactly when no pixel from which a label of that event is
  classified is equally far from the two colours; the other pixels of the row do not
  matter.
\<close>

theorem team_swap_swaps_labels_without_tie:
  "(team_pixel a icon position = Inr color \<longrightarrow>
      (get_icon_team lib (swap_colors a) icon position
         = map_sum id (swap_label a) (get_icon_team lib a icon position)
       \<longleftrightarrow> (tie lib a color \<longrightarrow> name_team1 a = name_team2 a)))
   \<and> (killfeed a = None \<longrightarrow>
      (fst (get_killfeed lib (swap_colors a))
         = map_sum id (map_option (swap_event a)) (fst (get_killfeed lib a))
       \<longleftrightarrow> (\<forall>color \<in> set (analysis_pixels lib a).
              tie lib a color \<longrightarrow> name_team1 a = name_team2 a)))"
proof (intro conjI impI)
  assume "team_pixel a icon position = Inr color"
  then show "get_icon_team lib (swap_colors a) icon position
         = map_sum id (swap_label a) (get_icon_team lib a icon position)
       \<longleftrightarrow> (tie lib a color \<longrightarrow> name_team1 a = name_team2 a)"
    by (simp add: get_icon_team_pixel nearest_team_swap_iff)
next
  assume "killfeed a = None"
  then show "fst (get_killfeed lib (swap_colors a))
         = map_sum id (map_option (swap_event a)) (fst (get_killfeed lib a))
       \<longleftrightarrow> (\<forall>color \<in> set (analysis_pixels lib a).
              tie lib a color \<longrightarrow> name_team1 a = name_team2 a)"
    using analyse_swap_iff [of lib a] by (simp add: get_killfeed_def)
qed

text \<open>
  The statement at the black row with the team colours (10, 0, 0) and (0, 20, 0), where
  the event carries team A, and team B after the exchange; and at the same row with a
  first pixel (1, 8, 0), which is equally far from the two colours but is not sampled:
  the labels are exchanged there too.
\<close>

theorem team_swap_swaps_labels_without_tie_witness:
  "team_pixel demo_analyzer \<lparr>object_name = ''ana'', score = 9/10, match_x = 2\<rparr> RIGHT
     = Inr [0, 0, 0]
   \<and> get_icon_team (demo_library [[9/10]]) (swap_colors demo_analyzer)
        \<lparr>object_name = ''ana'', score = 9/10, match_x = 2\<rparr> RIGHT
     = map_sum id (swap_label demo_analyzer)
         (get_icon_team (demo_library [[9/10]]) demo_analyzer
            \<lparr>object_name = ''ana'', score = 9/10, match_x = 2\<rparr> RIGHT)
   \<and> fst (get_killfeed (demo_library [[9/10]]) (swap_colors demo_analyzer))
     = map_sum id (map_option (swap_event demo_analyzer))
         (fst (get_killfeed (demo_library [[9/10]]) demo_analyzer))
   \<and> fst (get_killfeed (demo_library [[9/10]]) demo_analyzer)
     = Inr (Some \<lparr>kf_player = ''test'', kf_time = 7, team1 = None, team2 = Some ''A'',
                   character1 = None, character2 = Some ''ana'', event = SUICIDE\<rparr>)
   \<and> map_sum id (map_option (swap_event demo_analyzer))
         (fst (get_killfeed (demo_library [[9/10]]) demo_analyzer))
     = Inr (Some \<lparr>kf_player = ''test'', kf_time = 7, team1 = None, team2 = Some ''B'',
                   character1 = None, character2 = Some ''ana'', event = SUICIDE\<rparr>)
   \<and> tie (demo_library [[9/10]]) demo_analyzer [1, 8, 0]
   \<and> fst (get_killfeed (demo_library [[9/10]])
            (swap_colors (demo_analyzer\<lparr>killfeed_image := [[1, 8, 0] # replicate 40 [0, 0, 0]]\<rparr>)))
     = map_sum id
         (map_option (swap_event (demo_analyzer\<lparr>killfeed_image := [[1, 8, 0] # replicate 40 [0, 0, 0]]\<rparr>)))
         (fst (get_killfeed (demo_library [[9/10]])
                 (demo_analyzer\<lparr>killfeed_image := [[1, 8, 0] # replicate 40 [0, 0, 0]]\<rparr>)))"
proof -
  let ?L = "demo_library [[9/10]]"
  let ?m = "\<lparr>object_name = ''ana'', score = 9/10, match_x = 2\<rparr>"
  let ?T = "demo_analyzer\<lparr>killfeed_image := [[1, 8, 0] # replicate 40 [0, 0, 0]]\<rparr>"
  have p: "team_pixel demo_analyzer ?m RIGHT = Inr [0, 0, 0]" by code_simp
  have nt: "tie ?L demo_analyzer [0, 0, 0] \<longrightarrow> name_team1 demo_analyzer = name_team2 demo_analyzer"
    by code_simp
  have k: "killfeed demo_analyzer = None" by code_simp
  have h: "\<forall>color \<in> set (analysis_pixels ?L demo_analyzer).
              tie ?L demo_analyzer color \<longrightarrow> name_team1 demo_analyzer = name_team2 demo_analyzer"
    by code_simp
  have k': "killfeed ?T = None" by code_simp
  have h': "\<forall>color \<in> set (analysis_pixels ?L ?T).
              tie ?L ?T color \<longrightarrow> name_team1 ?T = name_team2 ?T"
    by code_simp
  have t: "tie ?L demo_analyzer [1, 8, 0]" by code_simp
  have e: "fst (get_killfeed ?L demo_analyzer)
     = Inr (Some \<lparr>kf_player = ''test'', kf_time = 7, team1 = None, team2 = Some ''A'',
                   character1 = None, character2 = Some ''ana'', event = SUICIDE\<rparr>)"
    by code_simp
  have s: "map_sum id (map_option (swap_event demo_analyzer)) (fst (get_killfeed ?L demo_analyzer))
     = Inr (Some \<lparr>kf_player = ''test'', kf_time = 7, team1 = None, team2 = Some ''B'',
                   character1 = None, character2 = Some ''ana'', event = SUICIDE\<rparr>)"
    by code_simp
  from team_swap_swaps_labels_without_tie [of demo_analyzer ?m RIGHT "[0, 0, 0]" ?L] p nt
  have r1: "get_icon_team ?L (swap_colors demo_analyzer) ?m RIGHT
     = map_sum id (swap_label demo_analyzer) (get_icon_team ?L demo_analyzer ?m RIGHT)"
    by blast
  from team_swap_swaps_labels_without_tie [of demo_analyzer ?m RIGHT "[0, 0, 0]" ?L] k h
  have r2: "fst (get_killfeed ?L (swap_colors demo_analyzer))
     = map_sum id (map_option (swap_event demo_analyzer)) (fst (get_killfeed ?L demo_analyzer))"
    by blast
  from team_swap_swaps_labels_without_tie [of ?T ?m RIGHT "[0, 0, 0]" ?L] k' h'
  have r3: "fst (get_killfeed ?L (swap_colors ?T))
     = map_sum id (map_option (swap_event ?T)) (fst (get_killfeed ?L ?T))"
    by blast
  from p r1 r2 e s t r3 show ?thesis by blast
qed

text \<open>
  C9 as stated fails on a tie: with the team colours (10, 0, 0) and (0, 10, 0) the
  sampled black pixel is equally far from both, and the analysis returns team A before and
  after the exchange of the colours.
\<close>

theorem team_swap_tie_keeps_team_one:
  "fst (get_killfeed (demo_library [[9/10]]) (demo_analyzer\<lparr>color_team2 := [0, 10, 0]\<rparr>))
     = Inr (Some \<lparr>kf_player = ''test'', kf_time = 7, team1 = None, team2 = Some ''A'',
                   character1 = None, character2 = Some ''ana'', event = SUICIDE\<rparr>)
   \<and> fst (get_killfeed (demo_library [[9/10]])
            (swap_colors (demo_analyzer\<lparr>color_team2 := [0, 10, 0]\<rparr>)))
     = Inr (Some \<lparr>kf_player = ''test'', kf_time = 7, team1 = None, team2 = Some ''A'',
                   character1 = None, character2 = Some ''ana'', event = SUICIDE\<rparr>)
   \<and> name_team1 (demo_analyzer\<lparr>color_team2 := [0, 10, 0]\<rparr>)
     \<noteq> name_team2 (demo_analyzer\<lparr>color_team2 := [0, 10, 0]\<rparr>)"
  by code_simp

text \<open>
  C10, as the code has it. A column \<open>x \<ge> 0\<close> that is valid in the mask of
  \<open>_validate_edge\<close> lies in \<open>2 .. KILLFEED_MAX_WIDTH - 39\<close>. For a left icon the
  sampled column \<open>x - 5\<close> lies in \<open>-3 .. KILLFEED_MAX_WIDTH - 44\<close>; it is not negative
  from \<open>x = 5\<close> on, and on a row of the width \<open>KILLFEED_MAX_WIDTH\<close> the read never
  raises (a negative index counts from the right end). For a right icon the sampled
  column is at most \<open>KILLFEED_MAX_WIDTH + ICON_CHARACTER_WIDTH - 34\<close>, which is inside
  the row width when the template width is at most 33.
\<close>

theorem sample_columns_of_valid_match:
  assumes "validate_edge lib a img = Inr m"
    and "0 \<le> match_x icon"
    and "py_index m (match_x icon) = Inr True"
  shows
  "2 \<le> match_x icon \<and> match_x icon < KILLFEED_MAX_WIDTH a - 38
   \<and> (sample_column a icon LEFT = Inr cl \<longrightarrow>
        - 3 \<le> cl \<and> cl < KILLFEED_MAX_WIDTH a - 43
        \<and> (5 \<le> match_x icon \<longrightarrow> 0 \<le> cl)
        \<and> (int (length row) = KILLFEED_MAX_WIDTH a \<longrightarrow> (\<exists>color. py_index row cl = Inr color)))
   \<and> (sample_column a icon RIGHT = Inr cr \<longrightarrow>
        cr \<le> KILLFEED_MAX_WIDTH a + ICON_CHARACTER_WIDTH a - 34
        \<and> (ICON_CHARACTER_WIDTH a \<le> 33 \<longrightarrow> cr < KILLFEED_MAX_WIDTH a))"
proof -
  from valid_column_bounds [OF assms] have
    b: "2 \<le> match_x icon" "match_x icon < KILLFEED_MAX_WIDTH a - 38" by simp_all
  show ?thesis
  proof (intro conjI impI)
    show "2 \<le> match_x icon" and "match_x icon < KILLFEED_MAX_WIDTH a - 38"
      using b by simp_all
  next
    assume l: "sample_column a icon LEFT = Inr cl"
    then have cl: "cl = match_x icon - 5" by (simp add: sample_column_def)
    with b show "- 3 \<le> cl" and "cl < KILLFEED_MAX_WIDTH a - 43" by simp_all
    {
      assume "5 \<le> match_x icon"
      with cl show "0 \<le> cl" by simp
    }
    {
      assume "int (length row) = KILLFEED_MAX_WIDTH a"
      with cl b have "- int (length row) \<le> cl" "cl < int (length row)" by simp_all
      then show "\<exists>color. py_index row cl = Inr color" by (rule py_index_in_range)
    }
  next
    assume "sample_column a icon RIGHT = Inr cr"
    then have cr: "cr = match_x icon + ICON_CHARACTER_WIDTH a + 5"
      by (simp add: sample_column_def LEFT_def RIGHT_def)
    with b show "cr \<le> KILLFEED_MAX_WIDTH a + ICON_CHARACTER_WIDTH a - 34" by simp
    {
      assume "ICON_CHARACTER_WIDTH a \<le> 33"
      with cr b show "cr < KILLFEED_MAX_WIDTH a" by simp
    }
  qed
qed

text \<open>
  The statement at a row of 48 pixels, where the mask is valid on the columns 2 to 9,
  for a match on column 6 and the template width 3: the left column is 1, the right
  column is 14.
\<close>

theorem sample_columns_of_valid_match_witness:
  "sample_column demo_analyzer_wide \<lparr>object_name = ''ana'', score = 9/10, match_x = 6\<rparr> LEFT
     = Inr 1
   \<and> (0 :: int) \<le> 1
   \<and> (\<exists>color. py_index (replicate 48 [0, 0, 0] :: pixel list) 1 = Inr color)
   \<and> sample_column demo_analyzer_wide \<lparr>object_name = ''ana'', score = 9/10, match_x = 6\<rparr> RIGHT
     = Inr 14
   \<and> (14 :: int) < KILLFEED_MAX_WIDTH demo_analyzer_wide"
proof -
  let ?L = "demo_library [[9/10]]"
  let ?m = "\<lparr>object_name = ''ana'', score = 9/10, match_x = 6\<rparr>"
  let ?ev = "[False, False] @ replicate 8 True @ replicate 6 False"
  let ?row = "replicate 48 [0, 0, 0] :: pixel list"
  have a1: "validate_edge ?L demo_analyzer_wide (demo_row 48) = Inr ?ev" by code_simp
  have a2: "0 \<le> match_x ?m" by simp
  have a3: "py_index ?ev (match_x ?m) = Inr True" by code_simp
  have l: "sample_column demo_analyzer_wide ?m LEFT = Inr 1" by code_simp
  have r: "sample_column demo_analyzer_wide ?m RIGHT = Inr 14" by code_simp
  have s: "5 \<le> match_x ?m \<and> int (length ?row) = KILLFEED_MAX_WIDTH demo_analyzer_wide
      \<and> ICON_CHARACTER_WIDTH demo_analyzer_wide \<le> 33"
    by code_simp
  from sample_columns_of_valid_match [OF a1 a2 a3, of 1 ?row 14] l r s
  show ?thesis by blast
qed

text \<open>
  C10 as stated fails: column 2 is valid in the mask of the row of 41 pixels, and for a
  left icon on it the sampled column is -3.
\<close>

theorem left_sample_column_negative:
  "validate_edge (demo_library [[9/10]]) demo_analyzer (demo_row 41)
     = Inr [False, False, True, False, False, False, False, False, False]
   \<and> py_index [False, False, True, False, False, False, False, False, False] 2 = Inr True
   \<and> sample_column demo_analyzer \<lparr>object_name = ''ana'', score = 9/10, match_x = 2\<rparr> LEFT
     = Inr (- 3)
   \<and> (- 3 :: int) < 0"
  by code_simp

end
